theory Spec2Isabelle
  imports Complex_Main "HOL-Library.Sublist" "HOL-Library.Multiset"
begin

section \<open>Python strings and numbers\<close>

text \<open>
  A Python \<open>str\<close> is modelled as a \<open>string\<close> whose characters are the code points
  below 256 (ASCII and Latin-1), one \<open>char\<close> per code point, so that the accented letters
  of the source's patterns (U+00ED, U+00F1, ...) are single characters as they are in Python.
  A Python \<open>float\<close> is modelled as an exact \<open>real\<close>: binary rounding, overflow,
  infinities and NaN are outside the model. A Python \<open>int\<close> is an \<open>int\<close>.
\<close>

definition is_digit :: "char \<Rightarrow> bool" where
  "is_digit c = (c \<in> set ''0123456789'')"

text \<open>\<open>str.isspace\<close> on the code points below 256; also the class \<open>\s\<close> of \<open>re\<close>.\<close>

definition is_space :: "char \<Rightarrow> bool" where
  "is_space c = (c \<in> set [CHR 0x09, CHR 0x0A, CHR 0x0B, CHR 0x0C, CHR 0x0D,
                             CHR 0x1C, CHR 0x1D, CHR 0x1E, CHR 0x1F, CHR 0x20,
                             CHR 0x85, CHR 0xA0])"

definition digit_val :: "char \<Rightarrow> nat" where
  "digit_val c = of_char c - 48"

definition digits_to_nat :: "string \<Rightarrow> nat" where
  "digits_to_nat ds = foldl (\<lambda>a c. 10 * a + digit_val c) 0 ds"

definition strip :: "string \<Rightarrow> string" where
  "strip s = rev (dropWhile is_space (rev (dropWhile is_space s)))"

text \<open>
  \<open>str.lower\<close> and \<open>str.upper\<close> on the code points below 256, as tables of
  the letters that have a case. The three Latin-1 letters whose upper case lies outside
  Latin-1 or is two letters (U+00DF, U+00B5, U+00FF) are left as they are: none of them
  becomes an \<open>M\<close> or a digit, which is all the source asks of an upper-cased text.
\<close>

definition upper_letters :: "string" where
  "upper_letters = ''ABCDEFGHIJKLMNOPQRSTUVWXYZ'' @
     [CHR 0xC0, CHR 0xC1, CHR 0xC2, CHR 0xC3, CHR 0xC4, CHR 0xC5, CHR 0xC6,
     CHR 0xC7, CHR 0xC8, CHR 0xC9, CHR 0xCA, CHR 0xCB, CHR 0xCC, CHR 0xCD,
     CHR 0xCE, CHR 0xCF, CHR 0xD0, CHR 0xD1, CHR 0xD2, CHR 0xD3, CHR 0xD4,
     CHR 0xD5, CHR 0xD6, CHR 0xD8, CHR 0xD9, CHR 0xDA, CHR 0xDB, CHR 0xDC,
     CHR 0xDD, CHR 0xDE]"

definition lower_letters :: "string" where
  "lower_letters = ''abcdefghijklmnopqrstuvwxyz'' @
     [CHR 0xE0, CHR 0xE1, CHR 0xE2, CHR 0xE3, CHR 0xE4, CHR 0xE5, CHR 0xE6,
     CHR 0xE7, CHR 0xE8, CHR 0xE9, CHR 0xEA, CHR 0xEB, CHR 0xEC, CHR 0xED,
     CHR 0xEE, CHR 0xEF, CHR 0xF0, CHR 0xF1, CHR 0xF2, CHR 0xF3, CHR 0xF4,
     CHR 0xF5, CHR 0xF6, CHR 0xF8, CHR 0xF9, CHR 0xFA, CHR 0xFB, CHR 0xFC,
     CHR 0xFD, CHR 0xFE]"

definition lower_char :: "char \<Rightarrow> char" where
  "lower_char c = (case map_of (zip upper_letters lower_letters) c of Some d \<Rightarrow> d | None \<Rightarrow> c)"

definition lower :: "string \<Rightarrow> string" where
  "lower s = map lower_char s"

definition upper_char :: "char \<Rightarrow> char" where
  "upper_char c = (case map_of (zip lower_letters upper_letters) c of Some d \<Rightarrow> d | None \<Rightarrow> c)"

definition upper :: "string \<Rightarrow> string" where
  "upper s = map upper_char s"

text \<open>\<open>sub in s\<close> on strings.\<close>

fun contains :: "string \<Rightarrow> string \<Rightarrow> bool" where
  "contains sub [] = (sub = [])"
| "contains sub (c # cs) = (prefix sub (c # cs) \<or> contains sub cs)"

text \<open>
  \<open>s.replace(old, new)\<close> for a non-empty \<open>old\<close> (every call of the source passes a
  non-empty literal): the occurrences are found left to right and do not overlap. The
  counter is the number of characters of the current occurrence still to be skipped.
\<close>

fun replace_aux :: "string \<Rightarrow> string \<Rightarrow> nat \<Rightarrow> string \<Rightarrow> string" where
  "replace_aux old new k [] = []"
| "replace_aux old new (Suc k) (c # cs) = replace_aux old new k cs"
| "replace_aux old new 0 (c # cs) =
     (if prefix old (c # cs) then new @ replace_aux old new (length old - 1) cs
      else c # replace_aux old new 0 cs)"

definition replace :: "string \<Rightarrow> string \<Rightarrow> string \<Rightarrow> string" where
  "replace old new s = replace_aux old new 0 s"

text \<open>
  \<open>float(s)\<close> on the decimal literals: surrounding whitespace, an optional sign, digits
  with an optional fractional part (\<open>5\<close>, \<open>5.\<close>, \<open>.5\<close>, \<open>5.25\<close>) and an optional
  exponent. \<open>None\<close> is Python's \<open>ValueError\<close>. The spellings of infinity and NaN,
  underscores between digits and digits outside ASCII are not modelled (the model
  answers \<open>None\<close> on them).
\<close>

definition split_sign :: "string \<Rightarrow> bool \<times> string" where
  "split_sign s =
     (case s of [] \<Rightarrow> (False, [])
      | c # cs \<Rightarrow> if c = CHR ''-'' then (True, cs)
                  else if c = CHR ''+'' then (False, cs) else (False, c # cs))"

definition parse_exponent :: "string \<Rightarrow> int option" where
  "parse_exponent s =
     (case s of [] \<Rightarrow> Some 0
      | c # cs \<Rightarrow>
          if c = CHR ''e'' \<or> c = CHR ''E''
          then (let (neg, ds) = split_sign cs
                in if ds \<noteq> [] \<and> list_all is_digit ds
                   then Some (if neg then - int (digits_to_nat ds) else int (digits_to_nat ds))
                   else None)
          else None)"

definition scale10 :: "real \<Rightarrow> int \<Rightarrow> real" where
  "scale10 m e = (if 0 \<le> e then m * 10 ^ nat e else m / 10 ^ nat (- e))"

definition py_float :: "string \<Rightarrow> real option" where
  "py_float s =
     (let (neg, u) = split_sign (strip s);
          ip = takeWhile is_digit u;
          r = dropWhile is_digit u;
          (fp, r') = (case r of [] \<Rightarrow> ([], [])
                      | c # cs \<Rightarrow> if c = CHR ''.''
                                  then (takeWhile is_digit cs, dropWhile is_digit cs)
                                  else ([], c # cs))
      in if ip = [] \<and> fp = [] then None
         else case parse_exponent r' of
                None \<Rightarrow> None
              | Some e \<Rightarrow>
                  (let m = real (digits_to_nat ip) + real (digits_to_nat fp) / 10 ^ length fp;
                       v = scale10 m e
                   in Some (if neg then - v else v)))"

text \<open>
  \<open>round(x, n)\<close> for \<open>n \<ge> 0\<close>: to the nearest multiple of \<open>10 ** -n\<close>, a tie going to
  the even one.
\<close>

definition round_half_even :: "real \<Rightarrow> int" where
  "round_half_even x =
     (let f = \<lfloor>x\<rfloor>; d = x - of_int f
      in if d < 1 / 2 then f
         else if 1 / 2 < d then f + 1
         else if even f then f else f + 1)"

definition py_round :: "real \<Rightarrow> nat \<Rightarrow> real" where
  "py_round x n = of_int (round_half_even (x * 10 ^ n)) / 10 ^ n"

section \<open>The data model (\<open>base_scraper.py\<close>, \<open>config.py\<close>)\<close>

record BankConfig =
  name :: string
  code :: string
  url :: string
  scraper_type :: string
  enabled :: bool
  requires_selenium :: bool
  rate_limit_seconds :: real

record CDTRate =
  bank_code :: string
  bank_name :: string
  term_days :: int
  rate_ea :: real
  min_amount :: "real option"
  max_amount :: "real option"
  rate_type :: string
  payment_frequency :: string
  investment_type :: string
  special_conditions :: "string option"
  source_url :: string
  scraped_at :: string

text \<open>The constructor call \<open>CDTRate(...)\<close> with the defaults of the dataclass.\<close>

definition new_CDTRate ::
  "string \<Rightarrow> string \<Rightarrow> int \<Rightarrow> real \<Rightarrow> real option \<Rightarrow> string \<Rightarrow> CDTRate" where
  "new_CDTRate bc bn td r ma u =
     \<lparr>bank_code = bc, bank_name = bn, term_days = td, rate_ea = r, min_amount = ma,
      max_amount = None, rate_type = ''fijo'', payment_frequency = ''vencimiento'',
      investment_type = ''CDT'', special_conditions = None, source_url = u,
      scraped_at = []\<rparr>"

record ScrapingResult =
  res_bank_code :: string
  res_bank_name :: string
  success :: bool
  rates :: "CDTRate list"
  error_message :: "string option"
  res_scraped_at :: string
  scraping_duration :: real

section \<open>The text normalizer of \<open>BaseScraper\<close>\<close>

text \<open>
  \<open>_parse_rate\<close>: a value above 1 is taken as a percentage and first divided by 100;
  the result is the value times 100, rounded to 2 decimals.
\<close>

definition clean_rate_text :: "string \<Rightarrow> string" where
  "clean_rate_text text =
     replace ''e.a.'' [] (replace ''EA'' [] (replace ''E.A.'' []
       (replace '' '' [] (replace '','' ''.'' (replace ''%'' [] (strip text))))))"

definition rate_of_float :: "real \<Rightarrow> real" where
  "rate_of_float rate = py_round ((if 1 < rate then rate / 100 else rate) * 100) 2"

definition parse_rate :: "string \<Rightarrow> real option" where
  "parse_rate text =
     (if text = [] then None
      else case py_float (clean_rate_text text) of
             None \<Rightarrow> None
           | Some rate \<Rightarrow> Some (rate_of_float rate))"

text \<open>\<open>_parse_amount\<close>.\<close>

definition parse_amount :: "string \<Rightarrow> real option" where
  "parse_amount text =
     (if text = [] then None
      else (let t1 = replace '','' [] (replace ''.'' [] (replace ''$'' [] (strip text)));
                t2 = strip (replace ''cop'' [] (replace ''COP'' [] t1))
            in if contains ''M'' (upper t2)
               then (case py_float (strip (replace ''M'' [] (upper t2))) of
                       None \<Rightarrow> None
                     | Some v \<Rightarrow> Some (v * 1000000))
               else py_float t2))"

text \<open>
  \<open>re.search\<close> for a pattern of the shape \<open>(\d+)\s*U\<close>, where \<open>U\<close> begins with a
  letter: at each start position, leftmost first, the digits and then the whitespace are
  taken greedily (giving one back leaves a digit or a blank where \<open>U\<close> needs its first
  letter, so backtracking never finds another match). The result is group 1.
\<close>

fun search_number :: "(string \<Rightarrow> bool) \<Rightarrow> string \<Rightarrow> string option" where
  "search_number unit [] = None"
| "search_number unit (c # cs) =
     (if is_digit c \<and> unit (dropWhile is_space (dropWhile is_digit cs))
      then Some (c # takeWhile is_digit cs)
      else search_number unit cs)"

text \<open>
  The units: \<open>d[i|U+00ED]as?\<close>, \<open>mes(?:es)?\<close>, \<open>a[n|U+00F1]os?\<close>, and none.
\<close>

definition unit_dias :: "string \<Rightarrow> bool" where
  "unit_dias s = (prefix ''dia'' s \<or> prefix [CHR ''d'', CHR 0xED, CHR ''a''] s)"

definition unit_mes :: "string \<Rightarrow> bool" where
  "unit_mes s = prefix ''mes'' s"

definition unit_anos :: "string \<Rightarrow> bool" where
  "unit_anos s = (prefix ''ano'' s \<or> prefix [CHR ''a'', CHR 0xF1, CHR ''o''] s)"

definition py_int :: "string \<Rightarrow> int" where
  "py_int ds = int (digits_to_nat ds)"

text \<open>
  \<open>_parse_term\<close>, with the bound below which a bare number counts months as a
  parameter: 36 in \<open>BaseScraper\<close>.
\<close>

definition parse_term_with :: "int \<Rightarrow> string \<Rightarrow> int option" where
  "parse_term_with months_bound text0 =
     (if text0 = [] then None
      else (let text = lower (strip text0)
            in case search_number unit_dias text of
                 Some g \<Rightarrow> Some (py_int g)
               | None \<Rightarrow>
            (case search_number unit_mes text of
                 Some g \<Rightarrow> Some (py_int g * 30)
               | None \<Rightarrow>
            (case search_number unit_anos text of
                 Some g \<Rightarrow> Some (py_int g * 365)
               | None \<Rightarrow>
            (case search_number (\<lambda>_. True) text of
                 Some g \<Rightarrow> (let num = py_int g
                            in if num \<le> months_bound then Some (num * 30) else Some num)
               | None \<Rightarrow> None)))))"

definition parse_term :: "string \<Rightarrow> int option" where
  "parse_term text = parse_term_with 36 text"

section \<open>Parsed documents\<close>

text \<open>
  The tree that the HTML parser hands to the scrapers: text nodes and elements with a
  tag name, attributes and children. \<open>get_text\<close> joins the text nodes in document
  order; \<open>find_all\<close> lists the descendants with one of the given tag names, in document
  order (pre-order), nested ones included; \<open>find_first\<close> (the source's \<open>find\<close>) is
  the first of them.
\<close>

datatype html = Text string | Elem string "(string \<times> string) list" "html list"

fun get_text :: "html \<Rightarrow> string" where
  "get_text (Text s) = s"
| "get_text (Elem t a cs) = concat (map get_text cs)"

fun descendants :: "html \<Rightarrow> html list" where
  "descendants (Text s) = []"
| "descendants (Elem t a cs) = concat (map (\<lambda>c. c # descendants c) cs)"

fun has_tag :: "string list \<Rightarrow> html \<Rightarrow> bool" where
  "has_tag tags (Text s) = False"
| "has_tag tags (Elem t a cs) = (t \<in> set tags)"

definition find_all :: "string list \<Rightarrow> html \<Rightarrow> html list" where
  "find_all tags n = filter (has_tag tags) (descendants n)"

definition find_first :: "string list \<Rightarrow> html \<Rightarrow> html option" where
  "find_first tags n = (case find_all tags n of [] \<Rightarrow> None | e # _ \<Rightarrow> Some e)"

text \<open>
  The tables of a document, each with the chain of its ancestors, nearest first
  (\<open>table.parent\<close>, \<open>table.parent.parent\<close>, ... up to the document itself, whose parent
  is \<open>None\<close>).
\<close>

fun find_tables :: "html list \<Rightarrow> html \<Rightarrow> (html \<times> html list) list" where
  "find_tables anc (Text s) = []"
| "find_tables anc (Elem t a cs) =
     concat (map (\<lambda>c. (if has_tag [''table''] c then [(c, Elem t a cs # anc)] else [])
                         @ find_tables (Elem t a cs # anc) c) cs)"

section \<open>\<open>GenericTableScraper\<close> (\<open>bank_scrapers.py\<close>)\<close>

definition rate_keywords :: "string list" where
  "rate_keywords = [''tasa'', ''rate'', ''e.a'', ''ea'', ''rendimiento'', ''interes'', ''%'']"

definition term_keywords :: "string list" where
  "term_keywords = [''plazo'', ''dias'', ''meses'', ''term'', ''periodo'', ''tiempo'']"

definition amount_keywords :: "string list" where
  "amount_keywords = [''monto'', ''inversion'', ''amount'', ''valor'', ''capital'']"

text \<open>
  \<open>re.search\<close> for \<open>\d+[.,]\d*\s*T\<close>, where \<open>T\<close> begins with a character that is
  neither a digit nor a blank: again the greedy choice at each start position is the only
  one that can match.
\<close>

fun search_decimal :: "(string \<Rightarrow> bool) \<Rightarrow> string \<Rightarrow> bool" where
  "search_decimal tail [] = False"
| "search_decimal tail (c # cs) =
     ((is_digit c \<and>
       (case dropWhile is_digit cs of
          [] \<Rightarrow> False
        | d # ds \<Rightarrow> (d = CHR ''.'' \<or> d = CHR '','')
                    \<and> tail (dropWhile is_space (dropWhile is_digit ds))))
      \<or> search_decimal tail cs)"

definition is_rate_cell :: "string \<Rightarrow> bool" where
  "is_rate_cell text0 =
     (let text = lower text0
      in if search_decimal (prefix ''%'') text then True
         else if search_decimal (\<lambda>s. prefix ''ea'' s \<or> prefix ''e.a'' s) text then True
         else False)"

definition is_term_cell :: "string \<Rightarrow> bool" where
  "is_term_cell text0 =
     (let text = lower text0
      in if search_number unit_dias text \<noteq> None then True
         else if search_number unit_mes text \<noteq> None then True
         else False)"

text \<open>\<open>_extract_tables\<close>: the tables whose text, or the first 500 characters of the text
  of one of their three nearest ancestors, names a keyword.\<close>

definition table_keywords :: "string list" where
  "table_keywords = [''cdt'', ''tasa'', ''plazo'', ''inversion'', ''deposito'']"

definition table_context :: "html list \<Rightarrow> string" where
  "table_context anc = concat (map (\<lambda>p. lower (take 500 (get_text p))) (take 3 anc))"

definition extract_tables :: "html \<Rightarrow> html list" where
  "extract_tables soup =
     map fst (filter (\<lambda>(table, anc).
                 list_ex (\<lambda>keyword. contains keyword (lower (get_text table))
                                    \<or> contains keyword (table_context anc)) table_keywords)
              (find_tables [] soup))"

text \<open>The column loops of \<open>_parse_table\<close>: over the headers the last match wins, over
  the cells of the second row the first one does (\<open>break\<close>).\<close>

definition last_index_where :: "('a \<Rightarrow> bool) \<Rightarrow> 'a list \<Rightarrow> nat option" where
  "last_index_where P xs =
     foldl (\<lambda>col (i, x). if P x then Some i else col) None (enumerate 0 xs)"

definition first_index_where :: "('a \<Rightarrow> bool) \<Rightarrow> 'a list \<Rightarrow> nat option" where
  "first_index_where P xs =
     (case filter (\<lambda>(i, x). P x) (enumerate 0 xs) of [] \<Rightarrow> None | (i, x) # _ \<Rightarrow> Some i)"

definition has_keyword :: "string list \<Rightarrow> string \<Rightarrow> bool" where
  "has_keyword kws header = list_ex (\<lambda>kw. contains kw header) kws"

definition cell_text :: "nat option \<Rightarrow> html list \<Rightarrow> string" where
  "cell_text col cells =
     (case col of None \<Rightarrow> []
      | Some i \<Rightarrow> if i < length cells then get_text (cells ! i) else [])"

definition parse_row ::
  "BankConfig \<Rightarrow> nat option \<Rightarrow> nat option \<Rightarrow> nat option \<Rightarrow> html \<Rightarrow> CDTRate list" where
  "parse_row config term_col rate_col amount_col row =
     (let cells = find_all [''td'', ''th''] row
      in if length cells < 2 then []
         else (let term_days = parse_term (cell_text term_col cells);
                   rate_ea = parse_rate (cell_text rate_col cells);
                   min_amount = parse_amount (cell_text amount_col cells)
               in case (term_days, rate_ea) of
                    (Some t, Some r) \<Rightarrow>
                      if t \<noteq> 0 \<and> r \<noteq> 0
                      then [new_CDTRate (code config) (name config) t r min_amount (url config)]
                      else []
                  | _ \<Rightarrow> []))"

definition parse_table :: "BankConfig \<Rightarrow> html \<Rightarrow> CDTRate list" where
  "parse_table config table =
     (case find_all [''tr''] table of
        [] \<Rightarrow> []
      | header_row # data_rows \<Rightarrow>
          (let headers = map (\<lambda>th. lower (strip (get_text th)))
                             (find_all [''th'', ''td''] header_row);
               term_col0 = last_index_where (has_keyword term_keywords) headers;
               rate_col0 = last_index_where (has_keyword rate_keywords) headers;
               amount_col = last_index_where (has_keyword amount_keywords) headers;
               second = (case data_rows of [] \<Rightarrow> [] | r # _ \<Rightarrow> find_all [''td'', ''th''] r);
               rate_col = (if rate_col0 = None \<and> data_rows \<noteq> []
                           then first_index_where (\<lambda>cell. is_rate_cell (get_text cell)) second
                           else rate_col0);
               term_col = (if term_col0 = None \<and> data_rows \<noteq> []
                           then first_index_where (\<lambda>cell. is_term_cell (get_text cell)) second
                           else term_col0)
           in concat (map (parse_row config term_col rate_col amount_col) data_rows)))"

text \<open>The removal of duplicates at the end of \<open>scrape\<close>: the first record of each key
  \<open>(bank_code, term_days, rate_ea)\<close> is kept, in the order seen.\<close>

definition rate_key :: "CDTRate \<Rightarrow> string \<times> int \<times> real" where
  "rate_key r = (bank_code r, term_days r, rate_ea r)"

fun unique_by :: "('a \<Rightarrow> 'k) \<Rightarrow> 'k set \<Rightarrow> 'a list \<Rightarrow> 'a list" where
  "unique_by key seen [] = []"
| "unique_by key seen (x # xs) =
     (if key x \<in> seen then unique_by key seen xs
      else x # unique_by key (insert (key x) seen) xs)"

definition new_ScrapingResult ::
  "string \<Rightarrow> string \<Rightarrow> bool \<Rightarrow> CDTRate list \<Rightarrow> string option \<Rightarrow> ScrapingResult" where
  "new_ScrapingResult bc bn ok rs err =
     \<lparr>res_bank_code = bc, res_bank_name = bn, success = ok, rates = rs,
      error_message = err, res_scraped_at = [], scraping_duration = 0\<rparr>"

text \<open>\<open>GenericTableScraper.scrape\<close>; the argument is what \<open>_get_page\<close> returned
  (\<open>None\<close> after the last failed attempt).\<close>

definition generic_scrape :: "BankConfig \<Rightarrow> html option \<Rightarrow> ScrapingResult" where
  "generic_scrape config page =
     (case page of
        None \<Rightarrow> new_ScrapingResult (code config) (name config) False []
                  (Some ''No se pudo obtener la pagina'')
      | Some soup \<Rightarrow>
          (let all_rates = concat (map (parse_table config) (extract_tables soup));
               unique_rates = unique_by rate_key {} all_rates
           in new_ScrapingResult (code config) (name config) (unique_rates \<noteq> []) unique_rates
                (if unique_rates \<noteq> [] then None else Some ''No se encontraron tasas'')))"

section \<open>The table-extraction scenario\<close>

definition table_row :: "string \<Rightarrow> string list \<Rightarrow> html" where
  "table_row tag cells = Elem ''tr'' [] (map (\<lambda>s. Elem tag [] [Text s]) cells)"

definition scenario_table :: html where
  "scenario_table =
     Elem ''table'' []
       [table_row ''th'' [''Entidad'', ''Plazo'', ''Tasa E.A.''],
        table_row ''td'' [''Banco X'', ''90 dias'', ''9,50%'']]"

definition scenario_document :: html where
  "scenario_document =
     Elem ''[document]'' [] [Elem ''html'' [] [Elem ''body'' [] [scenario_table]]]"

section \<open>The sources (\<open>config.py\<close>) and their scrapers (\<open>bank_scrapers.py\<close>)\<close>

text \<open>The constructor call \<open>BankConfig(...)\<close> with the defaults of the dataclass.\<close>

definition new_BankConfig :: "string \<Rightarrow> string \<Rightarrow> string \<Rightarrow> string \<Rightarrow> bool \<Rightarrow> BankConfig" where
  "new_BankConfig n c u st sel =
     \<lparr>name = n, code = c, url = u, scraper_type = st, enabled = True,
      requires_selenium = sel, rate_limit_seconds = 2\<rparr>"

definition BANKS_CONFIG :: "(string \<times> BankConfig) list" where
  "BANKS_CONFIG =
     [(''bancolombia'', new_BankConfig ''Bancolombia'' ''bancolombia''
         ''https://www.bancolombia.com/personas/productos-servicios/inversiones/cdt''
         ''dynamic'' True),
      (''davivienda'', new_BankConfig ''Davivienda'' ''davivienda''
         ''https://www.davivienda.com/wps/portal/personas/nuevo/personas/quiero_invertir/cdt''
         ''dynamic'' True),
      (''bbva'', new_BankConfig ''BBVA Colombia'' ''bbva''
         ''https://www.bbva.com.co/personas/productos/inversion/cdt.html''
         ''static'' False),
      (''banco_bogota'', new_BankConfig ''Banco de Bogota'' ''banco_bogota''
         ''https://www.bancodebogota.com/wps/portal/banco-bogota/bogota/productos/para-ti/inversiones/cdt''
         ''dynamic'' True),
      (''colpatria'', new_BankConfig ''Scotiabank Colpatria'' ''colpatria''
         ''https://www.scotiabankcolpatria.com/personas/inversiones/cdt''
         ''static'' False),
      (''av_villas'', new_BankConfig ''AV Villas'' ''av_villas''
         ''https://www.avvillas.com.co/wps/portal/avvillas/banco/personas/productos/inversiones/cdt''
         ''dynamic'' True),
      (''popular'', new_BankConfig ''Banco Popular'' ''popular''
         ''https://www.bancopopular.com.co/wps/portal/popular/inicio/personas/inversiones/cdt''
         ''dynamic'' True),
      (''caja_social'', new_BankConfig ''Banco Caja Social'' ''caja_social''
         ''https://www.bancocajasocial.com/personas/productos/inversiones/cdt''
         ''static'' False),
      (''occidente'', new_BankConfig ''Banco de Occidente'' ''occidente''
         ''https://www.bancodeoccidente.com.co/wps/portal/banco-occidente/bancodeoccidente/para-personas/inversiones/cdt''
         ''dynamic'' True),
      (''itau'', new_BankConfig ''Itau'' ''itau''
         ''https://www.itau.co/personas/inversiones/cdt''
         ''static'' False),
      (''coltefinanciera'', new_BankConfig ''Coltefinanciera'' ''coltefinanciera''
         ''https://www.coltefinanciera.com.co/productos/cdt''
         ''static'' False),
      (''serfinanza'', new_BankConfig ''Serfinanza'' ''serfinanza''
         ''https://www.serfinanza.com.co/cdt''
         ''static'' False),
      (''ban100'', new_BankConfig ''Ban100'' ''ban100''
         ''https://www.ban100.com.co/cdt''
         ''static'' False),
      (''finandina'', new_BankConfig ''Banco Finandina'' ''finandina''
         ''https://www.bancofinandina.com/personas/cdt''
         ''static'' False),
      (''pichincha'', new_BankConfig ''Banco Pichincha'' ''pichincha''
         ''https://www.bancopichincha.com.co/web/personas/cdt''
         ''static'' False),
      (''falabella'', new_BankConfig ''Banco Falabella'' ''falabella''
         ''https://www.bancofalabella.com.co/cdt''
         ''dynamic'' True),
      (''bancoomeva'', new_BankConfig ''Bancoomeva'' ''bancoomeva''
         ''https://www.bancoomeva.com.co/personas/inversiones/cdt''
         ''static'' False),
      (''gnb_sudameris'', new_BankConfig ''GNB Sudameris'' ''gnb_sudameris''
         ''https://www.gnbsudameris.com.co/personas/inversiones/cdt''
         ''static'' False),
      (''atomyrent'', new_BankConfig ''Atomy Rent'' ''atomyrent''
         ''https://atomyrent.com/''
         ''static'' False),
      (''finca_raiz'', new_BankConfig ''Finca Raiz Colombia'' ''finca_raiz''
         ''https://www.fedelonjas.org.co/''
         ''static'' False),
      (''nubank'', new_BankConfig ''Nubank (Cajitas)'' ''nubank''
         ''https://nu.com.co/''
         ''static'' False),
      (''pibank'', new_BankConfig ''Pibank'' ''pibank''
         ''https://www.pibank.co/''
         ''static'' False),
      (''lulobank'', new_BankConfig ''Lulo Bank'' ''lulobank''
         ''https://www.lulobank.com/''
         ''static'' False)]"

text \<open>
  \<open>BANKS_CONFIG[key]\<close> in the constructor of a scraper class. Every key used by the
  classes below is in the table; the configuration with empty fields stands for the
  \<open>KeyError\<close> of a key that is not.
\<close>

definition config_of :: "string \<Rightarrow> BankConfig" where
  "config_of key =
     (case map_of BANKS_CONFIG key of
        Some config \<Rightarrow> config
      | None \<Rightarrow> new_BankConfig [] [] [] [] False)"

text \<open>
  The scrapers with fixed rates share one shape: a record per pair of
  \<open>standard_rates\<close> (or per term of a list, at one rate), with a minimum amount and,
  for some, an investment type and special conditions; the result is always a success.
\<close>

definition static_scrape ::
  "BankConfig \<Rightarrow> (int \<times> real) list \<Rightarrow> real \<Rightarrow> string \<Rightarrow> string option \<Rightarrow> ScrapingResult" where
  "static_scrape config standard_rates amount inv_type conds =
     new_ScrapingResult (code config) (name config) True
       (map (\<lambda>(term, rate).
               (new_CDTRate (code config) (name config) term rate (Some amount) (url config))
                 \<lparr>investment_type := inv_type, special_conditions := conds\<rparr>)
            standard_rates)
       None"

definition BancolombiaApiScraper_scrape :: ScrapingResult where
  "BancolombiaApiScraper_scrape =
     static_scrape (config_of ''bancolombia'')
       [(30, 8.5), (60, 9), (90, 9.5)]
       500000 ''CDT''
       None"

definition DaviviendaScraper_scrape :: ScrapingResult where
  "DaviviendaScraper_scrape =
     static_scrape (config_of ''davivienda'')
       [(30, 8.2), (60, 8.8), (90, 9.3)]
       500000 ''CDT''
       None"

definition BBVAScraper_scrape :: ScrapingResult where
  "BBVAScraper_scrape =
     static_scrape (config_of ''bbva'')
       [(30, 8), (60, 8.5), (90, 9)]
       1000000 ''CDT''
       None"

definition ColtefinancieraScraper_scrape :: ScrapingResult where
  "ColtefinancieraScraper_scrape =
     static_scrape (config_of ''coltefinanciera'')
       [(30, 10), (60, 10.5), (90, 10.8), (180, 11.5), (360, 12.5), (540, 12.8), (720, 13)]
       1000000 ''CDT''
       None"

definition SerfinanzaScraper_scrape :: ScrapingResult where
  "SerfinanzaScraper_scrape =
     static_scrape (config_of ''serfinanza'')
       [(30, 9.8), (60, 10.3), (90, 10.6), (180, 11.3), (360, 12.3), (540, 12.6), (720, 12.8)]
       500000 ''CDT''
       None"

definition Ban100Scraper_scrape :: ScrapingResult where
  "Ban100Scraper_scrape =
     static_scrape (config_of ''ban100'')
       [(30, 9.5), (60, 10), (90, 10.3)]
       100000 ''CDT''
       None"

definition FinandinaScraper_scrape :: ScrapingResult where
  "FinandinaScraper_scrape =
     static_scrape (config_of ''finandina'')
       [(30, 9.2), (60, 9.7), (90, 10.2)]
       500000 ''CDT''
       None"

definition PichinchaScraper_scrape :: ScrapingResult where
  "PichinchaScraper_scrape =
     static_scrape (config_of ''pichincha'')
       [(30, 8.8), (60, 9.3), (90, 9.8)]
       500000 ''CDT''
       None"

definition ColpatriaScraper_scrape :: ScrapingResult where
  "ColpatriaScraper_scrape =
     static_scrape (config_of ''colpatria'')
       [(30, 8.3), (60, 8.8), (90, 9.3)]
       500000 ''CDT''
       None"

definition BancoBogotaScraper_scrape :: ScrapingResult where
  "BancoBogotaScraper_scrape =
     static_scrape (config_of ''banco_bogota'')
       [(30, 8.4), (60, 8.9), (90, 9.4)]
       500000 ''CDT''
       None"

definition PopularScraper_scrape :: ScrapingResult where
  "PopularScraper_scrape =
     static_scrape (config_of ''popular'')
       [(30, 8.5), (60, 9), (90, 9.5)]
       500000 ''CDT''
       None"

definition AtomyRentScraper_scrape :: ScrapingResult where
  "AtomyRentScraper_scrape =
     static_scrape (config_of ''atomyrent'')
       [(30, 15.5), (60, 15.5), (90, 15.5)]
       200000 ''Derechos Fiduciarios''
       None"

definition FincaRaizScraper_scrape :: ScrapingResult where
  "FincaRaizScraper_scrape =
     static_scrape (config_of ''finca_raiz'')
       [(30, 6), (60, 6.5), (90, 7)]
       50000000 ''Finca Raiz''
       (Some ''Rentabilidad por arriendo. Valorizacion adicional ~4-6% anual. Fuente: Fedelonjas'')"

definition NubankScraper_scrape :: ScrapingResult where
  "NubankScraper_scrape =
     static_scrape (config_of ''nubank'')
       [(30, 9.25), (60, 9.25), (90, 9.25)]
       1 ''Cuenta Ahorro''
       (Some ''Dinero siempre disponible. Sin monto minimo.'')"

definition PibankScraper_scrape :: ScrapingResult where
  "PibankScraper_scrape =
     static_scrape (config_of ''pibank'')
       [(30, 10), (60, 10), (90, 10)]
       1 ''Cuenta Ahorro''
       (Some ''Dinero siempre disponible. Sin comisiones ni cuota de manejo.'')"

definition LulobankScraper_scrape :: ScrapingResult where
  "LulobankScraper_scrape =
     static_scrape (config_of ''lulobank'')
       [(30, 9), (60, 9), (90, 9)]
       1 ''Cuenta Ahorro''
       (Some ''Hasta 10.5% con nomina >$3M. Cashback 3% restaurantes.'')"

text \<open>
  A scraper object: its configuration and its \<open>scrape\<close> method, as a function of the
  page that \<open>_get_page\<close> would fetch for it. The method returns a result or raises
  an exception, given by its message (\<open>Inl\<close>). Exceptions are those of class
  \<open>Exception\<close>; the signals below it in Python's hierarchy (\<open>KeyboardInterrupt\<close>,
  \<open>SystemExit\<close>) end the process and are not modelled.
\<close>

datatype scraper = Scraper BankConfig "html option \<Rightarrow> string + ScrapingResult"

definition static_scraper :: "string \<Rightarrow> ScrapingResult \<Rightarrow> scraper" where
  "static_scraper key result = Scraper (config_of key) (\<lambda>page. Inr result)"

definition GenericTableScraper :: "BankConfig \<Rightarrow> scraper" where
  "GenericTableScraper config = Scraper config (\<lambda>page. Inr (generic_scrape config page))"

definition SCRAPERS :: "(string \<times> scraper) list" where
  "SCRAPERS =
     [(''bancolombia'', static_scraper ''bancolombia'' BancolombiaApiScraper_scrape),
      (''davivienda'', static_scraper ''davivienda'' DaviviendaScraper_scrape),
      (''bbva'', static_scraper ''bbva'' BBVAScraper_scrape),
      (''ban100'', static_scraper ''ban100'' Ban100Scraper_scrape),
      (''finandina'', static_scraper ''finandina'' FinandinaScraper_scrape),
      (''pichincha'', static_scraper ''pichincha'' PichinchaScraper_scrape),
      (''colpatria'', static_scraper ''colpatria'' ColpatriaScraper_scrape),
      (''banco_bogota'', static_scraper ''banco_bogota'' BancoBogotaScraper_scrape),
      (''popular'', static_scraper ''popular'' PopularScraper_scrape),
      (''atomyrent'', static_scraper ''atomyrent'' AtomyRentScraper_scrape),
      (''finca_raiz'', static_scraper ''finca_raiz'' FincaRaizScraper_scrape),
      (''nubank'', static_scraper ''nubank'' NubankScraper_scrape),
      (''pibank'', static_scraper ''pibank'' PibankScraper_scrape),
      (''lulobank'', static_scraper ''lulobank'' LulobankScraper_scrape)]"

definition get_scraper :: "string \<Rightarrow> scraper option" where
  "get_scraper key =
     (case map_of SCRAPERS key of
        Some s \<Rightarrow> Some s
      | None \<Rightarrow>
          (case map_of BANKS_CONFIG key of
             Some config \<Rightarrow> Some (GenericTableScraper config)
           | None \<Rightarrow> None))"


section \<open>\<open>BaseScraper.run\<close>\<close>

text \<open>
  \<open>run\<close> reads the clock (\<open>start_time\<close>) and the date (\<open>scraped_at\<close>), calls
  \<open>scrape\<close> inside \<open>try\<close>, and reads the clock again (\<open>end_time\<close>) on either path.
  The three readings and what \<open>scrape\<close> did are the arguments.
\<close>

definition run ::
  "BankConfig \<Rightarrow> real \<Rightarrow> string \<Rightarrow> real \<Rightarrow> string + ScrapingResult \<Rightarrow> ScrapingResult" where
  "run config start_time now end_time scraped =
     (case scraped of
        Inr result \<Rightarrow>
          result\<lparr>res_scraped_at := now,
                 scraping_duration := end_time - start_time,
                 rates := map (\<lambda>rate. rate\<lparr>scraped_at := now\<rparr>) (rates result)\<rparr>
      | Inl e \<Rightarrow>
          \<lparr>res_bank_code = code config, res_bank_name = name config, success = False,
           rates = [], error_message = Some e, res_scraped_at = now,
           scraping_duration = end_time - start_time\<rparr>)"

section \<open>\<open>CDTOrchestrator\<close> (\<open>orchestrator.py\<close>)\<close>

text \<open>
  \<open>self.results\<close> is a Python \<open>dict\<close>, which keeps its keys in the order of their first
  insertion: an association list with distinct keys. \<open>d[k] = v\<close> replaces the value of
  a key that is present, in place, and appends a new key at the end.
\<close>

fun dict_set :: "('k \<times> 'v) list \<Rightarrow> 'k \<Rightarrow> 'v \<Rightarrow> ('k \<times> 'v) list" where
  "dict_set [] k v = [(k, v)]"
| "dict_set ((k', v') # d) k v = (if k' = k then (k, v) # d else (k', v') # dict_set d k v)"

text \<open>
  What one run of one scraper meets: the clock and date readings of \<open>run\<close> and the page
  its \<open>_get_page\<close> returns. A cycle is given by one of these per bank code.
\<close>

record run_env =
  env_start :: real
  env_now :: string
  env_end :: real
  env_page :: "html option"

fun run_scraper :: "run_env \<Rightarrow> scraper \<Rightarrow> ScrapingResult" where
  "run_scraper e (Scraper config scrape) =
     run config (env_start e) (env_now e) (env_end e) (scrape (env_page e))"

text \<open>\<open>scrape_bank\<close>: the new \<open>self.results\<close> and the value returned.\<close>

definition scrape_bank ::
  "(string \<Rightarrow> run_env) \<Rightarrow> (string \<times> ScrapingResult) list \<Rightarrow> string
     \<Rightarrow> (string \<times> ScrapingResult) list \<times> ScrapingResult option" where
  "scrape_bank env results key =
     (case get_scraper key of
        None \<Rightarrow> (results, None)
      | Some scraper \<Rightarrow>
          (let result = run_scraper (env key) scraper
           in (dict_set results key result, Some result)))"

text \<open>
  \<open>scrape_all\<close>. Sequentially, the banks are scraped in the order of the keys of
  \<open>SCRAPERS\<close>. In parallel, each task stores its result in \<open>self.results\<close> when its
  scraper has finished, so the stores happen in the completion order of the tasks: the
  argument \<open>completion\<close>, some ordering of the same keys.
\<close>

definition scrape_in_order ::
  "(string \<Rightarrow> run_env) \<Rightarrow> (string \<times> ScrapingResult) list \<Rightarrow> string list
     \<Rightarrow> (string \<times> ScrapingResult) list" where
  "scrape_in_order env results codes = foldl (\<lambda>res c. fst (scrape_bank env res c)) results codes"

definition bank_codes :: "string list" where
  "bank_codes = map fst SCRAPERS"

definition scrape_all ::
  "(string \<Rightarrow> run_env) \<Rightarrow> (string \<times> ScrapingResult) list \<Rightarrow> bool \<Rightarrow> string list
     \<Rightarrow> (string \<times> ScrapingResult) list" where
  "scrape_all env results in_parallel completion =
     (if in_parallel then scrape_in_order env results completion
      else scrape_in_order env results bank_codes)"

text \<open>\<open>get_all_rates\<close>: the records of the successful results, in the order of the
  dictionary.\<close>

definition get_all_rates :: "(string \<times> ScrapingResult) list \<Rightarrow> CDTRate list" where
  "get_all_rates results =
     concat (map (\<lambda>(k, result). if success result then rates result else []) results)"

text \<open>\<open>list.sort(key=..., reverse=True)\<close> is stable: records with equal keys keep their
  order. Sorting by the negated key with a stable sort does the same.\<close>

definition sort_desc :: "('a \<Rightarrow> real) \<Rightarrow> 'a list \<Rightarrow> 'a list" where
  "sort_desc key xs = sort_key (\<lambda>x. - key x) xs"

datatype py_error = ZeroDivisionError | ValueError | TypeError

definition py_div :: "real \<Rightarrow> real \<Rightarrow> py_error + real" where
  "py_div a b = (if b = 0 then Inl ZeroDivisionError else Inr (a / b))"

definition py_max :: "real list \<Rightarrow> py_error + real" where
  "py_max xs = (case xs of [] \<Rightarrow> Inl ValueError | x # ys \<Rightarrow> Inr (foldl max x ys))"

definition py_min :: "real list \<Rightarrow> py_error + real" where
  "py_min xs = (case xs of [] \<Rightarrow> Inl ValueError | x # ys \<Rightarrow> Inr (foldl min x ys))"

record statistics =
  average_rate :: real
  max_rate :: real
  min_rate :: real

text \<open>The statistics block of \<open>get_ranking\<close>, over the sorted records.\<close>

definition get_statistics :: "CDTRate list \<Rightarrow> py_error + statistics" where
  "get_statistics all_rates =
     (if all_rates \<noteq> []
      then (case py_div (sum_list (map rate_ea all_rates)) (real (length all_rates)) of
              Inl e \<Rightarrow> Inl e
            | Inr avg \<Rightarrow>
          (case py_max (map rate_ea all_rates) of
              Inl e \<Rightarrow> Inl e
            | Inr mx \<Rightarrow>
          (case py_min (map rate_ea all_rates) of
              Inl e \<Rightarrow> Inl e
            | Inr mn \<Rightarrow>
              Inr \<lparr>average_rate = py_round avg 2, max_rate = py_round mx 2,
                   min_rate = py_round mn 2\<rparr>)))
      else Inr \<lparr>average_rate = py_round 0 2, max_rate = py_round 0 2,
                min_rate = py_round 0 2\<rparr>)"

record Aggregate =
  generated_at :: string
  total_banks :: nat
  total_rates :: nat
  stats :: statistics
  top_10 :: "CDTRate list"
  by_term :: "(int \<times> CDTRate list) list"
  all_rates :: "CDTRate list"

definition get_ranking :: "string \<Rightarrow> (string \<times> ScrapingResult) list \<Rightarrow> py_error + Aggregate" where
  "get_ranking now results =
     (let sorted_rates = sort_desc rate_ea (get_all_rates results);
          rankings_by_term =
            map (\<lambda>term. (term, sort_desc rate_ea (filter (\<lambda>r. term_days r = term) sorted_rates)))
                [30, 60, 90, 180, 360, 540, 720]
      in case get_statistics sorted_rates of
           Inl e \<Rightarrow> Inl e
         | Inr st \<Rightarrow>
             Inr \<lparr>generated_at = now,
                  total_banks = length (filter (\<lambda>(k, r). success r) results),
                  total_rates = length sorted_rates,
                  stats = st,
                  top_10 = take 10 sorted_rates,
                  by_term = rankings_by_term,
                  all_rates = sorted_rates\<rparr>)"

section \<open>The query layer (\<open>api/app.py\<close>)\<close>

text \<open>
  A handler returns a status with its JSON body. The data that \<open>get_rates_data\<close> gives a
  handler is the cached aggregate, or \<open>None\<close>.
\<close>

datatype 'a http = Ok 'a | BadRequest string | NotFound string

record rates_response =
  resp_count :: nat
  resp_total :: nat
  resp_rates :: "CDTRate list"

text \<open>\<open>xs[:n]\<close>: a negative bound counts from the end.\<close>

definition slice_to :: "int \<Rightarrow> 'a list \<Rightarrow> 'a list" where
  "slice_to n xs = (if 0 \<le> n then take (nat n) xs else take (length xs - nat (- n)) xs)"

text \<open>Truth values of optional query parameters: absent, zero and the empty string
  are false.\<close>

definition truthy_int :: "int option \<Rightarrow> bool" where
  "truthy_int x = (case x of None \<Rightarrow> False | Some n \<Rightarrow> n \<noteq> 0)"

definition truthy_real :: "real option \<Rightarrow> bool" where
  "truthy_real x = (case x of None \<Rightarrow> False | Some r \<Rightarrow> r \<noteq> 0)"

definition truthy_str :: "string option \<Rightarrow> bool" where
  "truthy_str x = (case x of None \<Rightarrow> False | Some s \<Rightarrow> s \<noteq> [])"

definition sort_rates :: "string \<Rightarrow> CDTRate list \<Rightarrow> CDTRate list" where
  "sort_rates mode rs =
     (if mode = ''rate_desc'' then sort_key (\<lambda>x. - rate_ea x) rs
      else if mode = ''rate_asc'' then sort_key rate_ea rs
      else if mode = ''term_asc'' then sort_key term_days rs
      else if mode = ''term_desc'' then sort_key (\<lambda>x. - term_days x) rs
      else rs)"

text \<open>
  \<open>get_rates\<close>, as a function of the data and of the query parameters \<open>term\<close>, \<open>bank\<close>,
  \<open>min_rate\<close>, \<open>limit\<close> (100 when absent) and \<open>sort\<close> (\<open>rate_desc\<close> when absent). Each
  filter that applies builds a new list; when none applies, \<open>rates\<close> is the list held by
  the cached data itself and the sort reorders the cache in place. The second component
  is the cached data after the call.
\<close>

definition get_rates ::
  "Aggregate option \<Rightarrow> int option \<Rightarrow> string option \<Rightarrow> real option \<Rightarrow> int \<Rightarrow> string
     \<Rightarrow> rates_response http \<times> Aggregate option" where
  "get_rates data term bank minimum limit mode =
     (case data of
        None \<Rightarrow> (NotFound ''No hay datos disponibles'', None)
      | Some d \<Rightarrow>
          (let rates0 = all_rates d;
               rates1 = (if truthy_int term
                         then filter (\<lambda>r. Some (term_days r) = term) rates0 else rates0);
               rates2 = (if truthy_str bank
                         then filter (\<lambda>r. Some (bank_code r) = bank) rates1 else rates1);
               rates3 = (if truthy_real minimum
                         then filter (\<lambda>r. case minimum of None \<Rightarrow> False | Some m \<Rightarrow> m \<le> rate_ea r)
                                     rates2
                         else rates2);
               shared = (\<not> truthy_int term \<and> \<not> truthy_str bank \<and> \<not> truthy_real minimum);
               sorted = sort_rates mode rates3
           in (Ok \<lparr>resp_count = length (slice_to limit sorted), resp_total = length sorted,
                    resp_rates = slice_to limit sorted\<rparr>,
               Some (if shared then d\<lparr>all_rates := sorted\<rparr> else d))))"







section \<open>Predicates used in the proofs\<close>




text \<open>A cycle in which every clock reads 0 and no page can be fetched: the scrapers of
  \<open>SCRAPERS\<close> return their fixed rates whatever the page is.\<close>

definition offline_env :: "string \<Rightarrow> run_env" where
  "offline_env key = \<lparr>env_start = 0, env_now = [], env_end = 0, env_page = None\<rparr>"

text \<open>What one call of \<open>scrape_bank\<close> adds to the results, for a key not yet
  stored (used in the proofs).\<close>

definition stored :: "(string \<Rightarrow> run_env) \<Rightarrow> string \<Rightarrow> (string \<times> ScrapingResult) list" where
  "stored env k = (case get_scraper k of None \<Rightarrow> [] | Some s \<Rightarrow> [(k, run_scraper (env k) s)])"


section \<open>The consolidator scraper (\<open>mejorcdt_scraper.py\<close>)\<close>

record CDTRateFromMejorCDT =
  m_bank_name :: string
  m_bank_code :: string
  m_rate_ea :: real
  m_term_days :: int
  m_min_amount :: "real option"
  m_max_amount :: "real option"
  m_rate_type :: string
  m_source_url :: string
  m_source_month :: string
  m_scraped_at :: string

definition STANDARD_TERMS :: "int list" where
  "STANDARD_TERMS = [30, 60, 90, 180, 360, 540, 720]"

definition BANK_CODE_MAP :: "(string \<times> string) list" where
  "BANK_CODE_MAP =
     [(''bancolombia'', ''bancolombia''),
      (''davivienda'', ''davivienda''),
      (''bbva'', ''bbva''),
      (''banco de bogota'', ''banco_bogota''),
      ((''banco de bogot'' @ [CHR 0xE1]), ''banco_bogota''),
      (''av villas'', ''av_villas''),
      (''banco popular'', ''popular''),
      (''banco de occidente'', ''occidente''),
      (''scotiabank colpatria'', ''colpatria''),
      (''colpatria'', ''colpatria''),
      (''coltefinanciera'', ''coltefinanciera''),
      (''serfinanza'', ''serfinanza''),
      (''ban100'', ''ban100''),
      (''banco finandina'', ''finandina''),
      (''finandina'', ''finandina''),
      (''banco pichincha'', ''pichincha''),
      (''pichincha'', ''pichincha''),
      (''banco falabella'', ''falabella''),
      (''falabella'', ''falabella''),
      (''bancoomeva'', ''bancoomeva''),
      (''gnb sudameris'', ''gnb_sudameris''),
      (''itau'', ''itau''),
      ((''ita'' @ [CHR 0xFA]), ''itau''),
      (''banco caja social'', ''caja_social''),
      (''caja social'', ''caja_social''),
      (''lulo bank'', ''lulo_bank''),
      (''nu colombia'', ''nubank''),
      (''nubank'', ''nubank''),
      (''banco agrario'', ''agrario''),
      (''bancamia'', ''bancamia''),
      (''banco w'', ''banco_w''),
      (''mibanco'', ''mibanco''),
      (''mundo mujer'', ''mundo_mujer''),
      (''coopcentral'', ''coopcentral''),
      (''confiar'', ''confiar''),
      (''credifamilia'', ''credifamilia''),
      (''dann regional'', ''dann_regional'')]"

text \<open>\<open>re.sub(r'[^a-z0-9]', '_', s)\<close>.\<close>

definition underscore_others :: "string \<Rightarrow> string" where
  "underscore_others s =
     map (\<lambda>c. if c \<in> set ''abcdefghijklmnopqrstuvwxyz0123456789'' then c else CHR ''_'') s"

text \<open>\<open>_get_bank_code\<close>: the code of the first entry of the map whose key contains the
  name or is contained in it; otherwise a code made from the name.\<close>

definition get_bank_code :: "string \<Rightarrow> string" where
  "get_bank_code bank =
     (let name_lower = strip (lower bank)
      in case filter (\<lambda>(key, c). contains key name_lower \<or> contains name_lower key) BANK_CODE_MAP of
           (key, c) # _ \<Rightarrow> c
         | [] \<Rightarrow> underscore_others name_lower)"

text \<open>
  A match of \<open>[eE]\.?[aA]\.?\<close> at the head of a string: the number of characters it
  takes. The optional dots are taken when present; leaving the first one out could not
  help, since a dot is not the letter that must follow.
\<close>

definition match_ea :: "string \<Rightarrow> nat option" where
  "match_ea s =
     (case s of
        [] \<Rightarrow> None
      | e # r \<Rightarrow>
          if e \<noteq> CHR ''e'' \<and> e \<noteq> CHR ''E'' then None
          else (let dot1 = (r \<noteq> [] \<and> hd r = CHR ''.'');
                    r1 = (if dot1 then tl r else r)
                in case r1 of
                     [] \<Rightarrow> None
                   | a # r2 \<Rightarrow>
                       if a \<noteq> CHR ''a'' \<and> a \<noteq> CHR ''A'' then None
                       else Some (2 + (if dot1 then 1 else 0)
                                    + (if r2 \<noteq> [] \<and> hd r2 = CHR ''.'' then 1 else 0))))"

text \<open>\<open>re.sub(r'[eE]\.?[aA]\.?', '', s)\<close>: the matches are found left to right and do
  not overlap; the counter is the number of characters of the current match still to be
  dropped.\<close>

fun sub_ea_aux :: "nat \<Rightarrow> string \<Rightarrow> string" where
  "sub_ea_aux k [] = []"
| "sub_ea_aux (Suc k) (c # cs) = sub_ea_aux k cs"
| "sub_ea_aux 0 (c # cs) =
     (case match_ea (c # cs) of
        Some n \<Rightarrow> sub_ea_aux (n - 1) cs
      | None \<Rightarrow> c # sub_ea_aux 0 cs)"

definition sub_ea :: "string \<Rightarrow> string" where
  "sub_ea s = sub_ea_aux 0 s"

text \<open>\<open>MejorCDTScraper._parse_rate\<close>: the number as written, rounded to 2 decimals.\<close>

definition mejor_parse_rate :: "string \<Rightarrow> real option" where
  "mejor_parse_rate text =
     (if text = [] then None
      else case py_float (sub_ea (replace '' '' [] (replace '','' ''.'' (replace ''%'' [] (strip text))))) of
             None \<Rightarrow> None
           | Some rate \<Rightarrow> Some (py_round rate 2))"

definition mejor_parse_term :: "string \<Rightarrow> int option" where
  "mejor_parse_term text = parse_term_with 24 text"

text \<open>
  A match of \<open>(\d{1,2}[.,]\d{1,2})\s*%?\s*[eE]\.?[aA]\.?\<close> at the head of a string:
  group 1 and the number of characters taken. Each part takes as much as it can; taking
  fewer digits or blanks would leave a digit or a blank where the next part needs another
  character, so no other split matches.
\<close>

definition match_card_rate :: "string \<Rightarrow> (string \<times> nat) option" where
  "match_card_rate s =
     (let d1 = takeWhile is_digit (take 2 s);
          r1 = drop (length d1) s
      in if d1 = [] then None
         else case r1 of
                [] \<Rightarrow> None
              | sep # r2 \<Rightarrow>
                  if sep \<noteq> CHR ''.'' \<and> sep \<noteq> CHR '','' then None
                  else (let d2 = takeWhile is_digit (take 2 r2);
                            r3 = drop (length d2) r2;
                            sp1 = takeWhile is_space r3;
                            r4 = drop (length sp1) r3;
                            pct = (r4 \<noteq> [] \<and> hd r4 = CHR ''%'');
                            r5 = (if pct then tl r4 else r4);
                            sp2 = takeWhile is_space r5;
                            r6 = drop (length sp2) r5
                        in if d2 = [] then None
                           else case match_ea r6 of
                                  None \<Rightarrow> None
                                | Some n \<Rightarrow>
                                    Some (d1 @ [sep] @ d2,
                                          length d1 + 1 + length d2 + length sp1
                                            + (if pct then 1 else 0) + length sp2 + n)))"

text \<open>\<open>re.findall\<close> of that pattern: the groups of the matches, left to right, a match
  starting where the one before ended or later.\<close>

fun findall_card_rates_aux :: "nat \<Rightarrow> string \<Rightarrow> string list" where
  "findall_card_rates_aux k [] = []"
| "findall_card_rates_aux (Suc k) (c # cs) = findall_card_rates_aux k cs"
| "findall_card_rates_aux 0 (c # cs) =
     (case match_card_rate (c # cs) of
        Some (g, n) \<Rightarrow> g # findall_card_rates_aux (n - 1) cs
      | None \<Rightarrow> findall_card_rates_aux 0 cs)"

definition findall_card_rates :: "string \<Rightarrow> string list" where
  "findall_card_rates text = findall_card_rates_aux 0 text"

text \<open>\<open>_extract_rates_from_card\<close>.\<close>

definition extract_rates_from_card ::
  "html \<Rightarrow> string \<Rightarrow> string \<Rightarrow> string \<Rightarrow> CDTRateFromMejorCDT list" where
  "extract_rates_from_card card_elem src_url src_month stamp =
     (let text = get_text card_elem;
          title = find_first [''h2'', ''h3'', ''h4'', ''strong'', ''b''] card_elem
      in case title of
           None \<Rightarrow> []
         | Some t \<Rightarrow>
             (let bank = strip (get_text t)
              in if bank = [] \<or> length bank < 3 then []
                 else concat (map (\<lambda>rate_str.
                        case mejor_parse_rate rate_str of
                          None \<Rightarrow> []
                        | Some rate \<Rightarrow>
                            if rate \<noteq> 0 \<and> 1 < rate \<and> rate < 25
                            then [\<lparr>m_bank_name = bank, m_bank_code = get_bank_code bank,
                                   m_rate_ea = rate, m_term_days = 360, m_min_amount = None,
                                   m_max_amount = None, m_rate_type = ''fijo'',
                                   m_source_url = src_url, m_source_month = src_month,
                                   m_scraped_at = stamp\<rparr>]
                            else [])
                      (findall_card_rates text))))"

text \<open>A card as the monthly pages show them: a heading with the name of the bank and a
  line with its rate.\<close>

definition example_card :: html where
  "example_card =
     Elem ''div'' [(''class'', ''bank-card'')]
       [Elem ''h3'' [] [Text ''Banco X''], Elem ''p'' [] [Text ''12,50% E.A.'']]"


text \<open>A page of a source without a scraper of its own, with one table whose rate cell
  reads 99 percent; and a cycle in which every fetch returns that page.\<close>

definition high_rate_document :: html where
  "high_rate_document =
     Elem ''[document]'' []
       [Elem ''html'' []
          [Elem ''body'' []
             [Elem ''table'' []
                [table_row ''th'' [''Plazo'', ''Tasa''],
                 table_row ''td'' [''90 dias'', ''99%'']]]]]"

definition high_rate_env :: "string \<Rightarrow> run_env" where
  "high_rate_env key =
     \<lparr>env_start = 0, env_now = [], env_end = 0, env_page = Some high_rate_document\<rparr>"

section \<open>The canonical string of a rate\<close>

text \<open>
  \<open>str(x)\<close> for a float with at most two decimals and a magnitude below \<open>10 ** 16\<close>
  (where Python prints the shortest decimal that reads back as \<open>x\<close>, in positional
  notation): the sign, the digits of the integer part, a point, and the decimals without
  a trailing zero, but at least one. \<open>None\<close> outside that range.
\<close>

definition digit_char :: "nat \<Rightarrow> char" where
  "digit_char d = ''0123456789'' ! d"

fun digits_of :: "nat \<Rightarrow> string" where
  "digits_of n = (if n < 10 then [digit_char n] else digits_of (n div 10) @ [digit_char (n mod 10)])"

declare digits_of.simps [simp del]

definition decimals_of :: "nat \<Rightarrow> string" where
  "decimals_of f =
     (if f mod 10 = 0 then [digit_char (f div 10)]
      else [digit_char (f div 10), digit_char (f mod 10)])"

definition py_str :: "real \<Rightarrow> string option" where
  "py_str v =
     (let k = \<lfloor>v * 100\<rfloor>
      in if of_int k \<noteq> v * 100 \<or> 10 ^ 18 \<le> \<bar>k\<bar> then None
         else Some ((if k < 0 then ''-'' else [])
                    @ digits_of (nat \<bar>k\<bar> div 100) @ ''.'' @ decimals_of (nat \<bar>k\<bar> mod 100)))"

text \<open>The strings made of digits, points and minus signs (used in the proofs).\<close>

definition plain :: "string \<Rightarrow> bool" where
  "plain s = list_all (\<lambda>c. is_digit c \<or> c = CHR ''.'' \<or> c = CHR ''-'') s"

section \<open>Verified properties\<close>

text \<open>
  Claim C9. A document with one table, whose header row is Entidad, Plazo, Tasa E.A. and
  whose only data row is Banco X, 90 dias, 9,50%, gives exactly one record under the table
  strategy of the generic scraper, with \<open>term_days = 90\<close> and \<open>rate_ea = 9.50\<close>; the
  record carries the identity of the configured source and no amount, and it is the one
  record of the adapter's successful result.
\<close>

theorem table_extraction_scenario:
  "concat (map (parse_table config) (extract_tables scenario_document))
     = [new_CDTRate (code config) (name config) 90 9.5 None (url config)]
   \<and> generic_scrape config (Some scenario_document)
     = new_ScrapingResult (code config) (name config) True
         [new_CDTRate (code config) (name config) 90 9.5 None (url config)] None"
  by code_simp

subsection \<open>Rounding and the statistics of the ranking\<close>

lemma round_half_even_bounds: "\<lfloor>x\<rfloor> \<le> round_half_even x" "round_half_even x \<le> \<lfloor>x\<rfloor> + 1"
  by (auto simp: round_half_even_def Let_def)

lemma round_half_even_mono:
  assumes "x \<le> y" shows "round_half_even x \<le> round_half_even y"
proof (cases "\<lfloor>x\<rfloor> = \<lfloor>y\<rfloor>")
  case True
  with assms have "x - of_int \<lfloor>x\<rfloor> \<le> y - of_int \<lfloor>y\<rfloor>" by simp
  with True show ?thesis
    by (auto simp: round_half_even_def Let_def)
next
  case False
  with assms have "\<lfloor>x\<rfloor> + 1 \<le> \<lfloor>y\<rfloor>"
    using floor_mono[of x y] by linarith
  with round_half_even_bounds[of x] round_half_even_bounds[of y] show ?thesis by linarith
qed

lemma py_round_mono: "x \<le> y \<Longrightarrow> py_round x n \<le> py_round y n"
  unfolding py_round_def
  by (intro divide_right_mono of_int_le_iff[THEN iffD2] round_half_even_mono mult_right_mono) auto

lemma py_round_zero: "py_round 0 n = 0"
  by (simp add: py_round_def round_half_even_def)

lemma foldl_min_le: "foldl min x ys \<le> (x::real) \<and> (\<forall>y\<in>set ys. foldl min x ys \<le> y)"
proof (induction ys arbitrary: x)
  case Nil show ?case by simp
next
  case (Cons a ys)
  from Cons.IH[of "min x a"] show ?case by (auto simp: min_def split: if_splits)
qed

lemma foldl_max_ge: "(x::real) \<le> foldl max x ys \<and> (\<forall>y\<in>set ys. y \<le> foldl max x ys)"
proof (induction ys arbitrary: x)
  case Nil show ?case by simp
next
  case (Cons a ys)
  from Cons.IH[of "max x a"] show ?case by (auto simp: max_def split: if_splits)
qed

lemma sum_list_lower: "\<forall>a\<in>set xs. m \<le> a \<Longrightarrow> m * real (length xs) \<le> sum_list xs"
  by (induction xs) (auto simp: algebra_simps)

lemma sum_list_upper: "\<forall>a\<in>set xs. a \<le> m \<Longrightarrow> sum_list xs \<le> m * real (length xs)"
  by (induction xs) (auto simp: algebra_simps)

lemma mean_between:
  fixes x :: real
  shows "foldl min x ys \<le> sum_list (x # ys) / real (length (x # ys))"
    and "sum_list (x # ys) / real (length (x # ys)) \<le> foldl max x ys"
proof -
  have "foldl min x ys * real (length (x # ys)) \<le> sum_list (x # ys)"
    by (rule sum_list_lower) (use foldl_min_le[of x ys] in auto)
  then show "foldl min x ys \<le> sum_list (x # ys) / real (length (x # ys))"
    by (simp add: pos_le_divide_eq)
  have "sum_list (x # ys) \<le> foldl max x ys * real (length (x # ys))"
    by (rule sum_list_upper) (use foldl_max_ge[of x ys] in auto)
  then show "sum_list (x # ys) / real (length (x # ys)) \<le> foldl max x ys"
    by (simp add: pos_divide_le_eq)
qed

lemma get_statistics_nonempty:
  "\<exists>st. get_statistics (r # rs) = Inr st \<and> min_rate st \<le> average_rate st \<and> average_rate st \<le> max_rate st"
  using mean_between[of "rate_ea r" "map rate_ea rs"]
  by (auto simp: get_statistics_def py_div_def py_max_def py_min_def intro!: py_round_mono)

lemma get_statistics_empty: "get_statistics [] = Inr \<lparr>average_rate = 0, max_rate = 0, min_rate = 0\<rparr>"
  by (simp add: get_statistics_def py_round_zero)

lemma get_statistics_total: "\<exists>st. get_statistics rs = Inr st"
  by (cases rs) (use get_statistics_nonempty get_statistics_empty in blast)+


subsection \<open>Faults inside a scraper\<close>

text \<open>
  Claim C8. When the \<open>scrape\<close> method of any scraper raises, \<open>run\<close> returns a result
  (it does not raise): a failure, with the message of the fault in \<open>error_message\<close>, no
  records, the date read at the start, and the time elapsed between the two readings of
  the clock. This holds for \<open>run\<close> itself and for a scraper object run by the orchestrator.
\<close>

theorem run_captures_fault:
  "run config start_time now end_time (Inl e) =
     \<lparr>res_bank_code = code config, res_bank_name = name config, success = False,
      rates = [], error_message = Some e, res_scraped_at = now,
      scraping_duration = end_time - start_time\<rparr>
   \<and> run_scraper env (Scraper config (\<lambda>page. Inl e)) =
     \<lparr>res_bank_code = code config, res_bank_name = name config, success = False,
      rates = [], error_message = Some e, res_scraped_at = env_now env,
      scraping_duration = env_end env - env_start env\<rparr>"
  by (simp add: run_def)

subsection \<open>The query layer\<close>

lemma length_sort_rates: "length (sort_rates mode rs) = length rs"
  by (simp add: sort_rates_def)

text \<open>
  Claim C10. In the rate-listing query a \<open>term\<close> of 0 and a \<open>min_rate\<close> of 0 are treated
  as absent: the answer, and the effect on the cached data, are those of the query
  without that parameter. With both at 0 and no bank, the answer lists every record of
  the data (sorted and cut to the limit), not the records of term 0.
\<close>

theorem zero_filters_absent:
  "get_rates data (Some 0) bank minimum limit mode = get_rates data None bank minimum limit mode
   \<and> get_rates data term bank (Some 0) limit mode = get_rates data term bank None limit mode
   \<and> get_rates (Some d) (Some 0) None (Some 0) limit mode =
       (Ok \<lparr>resp_count = length (slice_to limit (sort_rates mode (all_rates d))),
            resp_total = length (all_rates d),
            resp_rates = slice_to limit (sort_rates mode (all_rates d))\<rparr>,
        Some (d\<lparr>all_rates := sort_rates mode (all_rates d)\<rparr>))"
  by (simp add: get_rates_def truthy_int_def truthy_real_def truthy_str_def Let_def
        length_sort_rates split: option.split)




subsection \<open>The records of a cycle\<close>









lemma parse_table_rows:
  "\<exists>tc rc ac data_rows. parse_table config t = concat (map (parse_row config tc rc ac) data_rows)"
proof (cases "find_all [''tr''] t")
  case Nil
  then have "parse_table config t = concat (map (parse_row config None None None) [])"
    by (simp add: parse_table_def)
  then show ?thesis by blast
next
  case (Cons h rows)
  show ?thesis
    unfolding parse_table_def Let_def Cons list.case by (intro exI) (rule refl)
qed


lemma unique_by_subset: "set (unique_by key seen xs) \<subseteq> set xs"
  by (induction xs arbitrary: seen) auto






















subsection \<open>The completion order of a parallel cycle\<close>

lemma dict_set_append: "k \<notin> fst ` set d \<Longrightarrow> dict_set d k v = d @ [(k, v)]"
  by (induction d) auto

lemma scrape_bank_append:
  "k \<notin> fst ` set d \<Longrightarrow> fst (scrape_bank env d k) = d @ stored env k"
  by (simp add: scrape_bank_def stored_def dict_set_append Let_def split: option.split)

lemma stored_keys: "fst ` set (stored env k) \<subseteq> {k}"
  by (auto simp: stored_def split: option.splits)

lemma scrape_in_order_append:
  "distinct codes \<Longrightarrow> set codes \<inter> fst ` set d = {}
   \<Longrightarrow> scrape_in_order env d codes = d @ concat (map (stored env) codes)"
proof (induction codes arbitrary: d)
  case Nil
  show ?case by (simp add: scrape_in_order_def)
next
  case (Cons k codes)
  from Cons.prems have k: "k \<notin> fst ` set d" by auto
  have step: "scrape_in_order env d (k # codes) = scrape_in_order env (d @ stored env k) codes"
    by (simp add: scrape_in_order_def scrape_bank_append[OF k])
  have "set codes \<inter> fst ` set (d @ stored env k) = {}"
    using Cons.prems stored_keys[of env k] by auto
  with Cons.prems have "scrape_in_order env (d @ stored env k) codes
      = (d @ stored env k) @ concat (map (stored env) codes)"
    by (intro Cons.IH) auto
  with step show ?case by simp
qed

lemma get_all_rates_append:
  "get_all_rates (xs @ ys) = get_all_rates xs @ get_all_rates ys"
  by (simp add: get_all_rates_def)

lemma get_all_rates_stored:
  "get_all_rates (concat (map (stored env) codes)) = concat (map (\<lambda>k. get_all_rates (stored env k)) codes)"
  by (induction codes) (simp_all add: get_all_rates_append, simp add: get_all_rates_def)

lemma mset_concat_map:
  "mset xs = mset ys \<Longrightarrow> mset (concat (map h xs)) = mset (concat (map h ys))"
proof -
  have "mset (concat (map h zs)) = (\<Sum>z\<in>#mset zs. mset (h z))" for zs
    by (induction zs) simp_all
  then show "mset xs = mset ys \<Longrightarrow> ?thesis" by simp
qed

lemma merged_mset:
  assumes "distinct o1" and "mset o1 = mset o2"
  shows "mset (get_all_rates (scrape_all env [] True o1))
       = mset (get_all_rates (scrape_all env [] True o2))"
proof -
  from assms have d2: "distinct o2" by (metis mset_eq_imp_distinct_iff)
  show ?thesis
    using assms(1) d2 mset_concat_map[OF assms(2)]
    by (simp add: scrape_all_def scrape_in_order_append get_all_rates_stored)
qed

lemma foldl_max_Max: "foldl max (x::real) ys = Max (set (x # ys))"
proof (induction ys arbitrary: x)
  case Nil show ?case by simp
next
  case (Cons y ys)
  have "Max (insert x (insert y (set ys))) = Max (insert (max x y) (set ys))"
    by (cases "set ys = {}") (simp_all add: max.assoc)
  with Cons.IH[of "max x y"] show ?case by simp
qed

lemma foldl_min_Min: "foldl min (x::real) ys = Min (set (x # ys))"
proof (induction ys arbitrary: x)
  case Nil show ?case by simp
next
  case (Cons y ys)
  have "Min (insert x (insert y (set ys))) = Min (insert (min x y) (set ys))"
    by (cases "set ys = {}") (simp_all add: min.assoc)
  with Cons.IH[of "min x y"] show ?case by simp
qed

lemma py_max_set: "zs \<noteq> [] \<Longrightarrow> py_max zs = Inr (Max (set zs))"
  by (cases zs) (simp_all add: py_max_def foldl_max_Max)

lemma py_min_set: "zs \<noteq> [] \<Longrightarrow> py_min zs = Inr (Min (set zs))"
  by (cases zs) (simp_all add: py_min_def foldl_min_Min)

lemma get_statistics_mset:
  assumes "mset xs = mset ys" shows "get_statistics xs = get_statistics ys"
proof (cases "xs = []")
  case True
  with assms show ?thesis by simp
next
  case False
  with assms have ne: "ys \<noteq> []" by auto
  from assms have m: "mset (map rate_ea xs) = mset (map rate_ea ys)" by simp
  have len: "length xs = length ys" using assms by (rule mset_eq_length)
  have sum: "sum_list (map rate_ea xs) = sum_list (map rate_ea ys)"
    using m by (metis sum_mset_sum_list)
  have st: "set (map rate_ea xs) = set (map rate_ea ys)"
    using m by (rule mset_eq_setD)
  have mx: "py_max (map rate_ea xs) = py_max (map rate_ea ys)"
    using False ne st by (simp add: py_max_set)
  have mn: "py_min (map rate_ea xs) = py_min (map rate_ea ys)"
    using False ne st by (simp add: py_min_set)
  show ?thesis
    unfolding get_statistics_def sum len mx mn using False ne by simp
qed

lemma get_ranking_Inr:
  "\<exists>a. get_ranking now results = Inr a
       \<and> all_rates a = sort_desc rate_ea (get_all_rates results)
       \<and> get_statistics (all_rates a) = Inr (stats a)
       \<and> total_rates a = length (get_all_rates results)
       \<and> total_banks a = length (filter (\<lambda>(k, r). success r) results)"
proof -
  obtain st where "get_statistics (sort_desc rate_ea (get_all_rates results)) = Inr st"
    using get_statistics_total by blast
  then show ?thesis by (simp add: get_ranking_def Let_def sort_desc_def)
qed

lemma results_mset:
  assumes "distinct o1" and "mset o1 = mset o2"
  shows "mset (scrape_all env [] True o1) = mset (scrape_all env [] True o2)"
proof -
  from assms have d2: "distinct o2" by (metis mset_eq_imp_distinct_iff)
  show ?thesis
    using assms(1) d2 mset_concat_map[OF assms(2)]
    by (simp add: scrape_all_def scrape_in_order_append)
qed

lemma bank_codes_distinct: "distinct bank_codes"
  by (simp add: bank_codes_def SCRAPERS_def)

lemma all_rates_ranking:
  "map_sum id all_rates (get_ranking now results)
     = Inr (sort_desc rate_ea (get_all_rates results))"
proof -
  obtain a where "get_ranking now results = Inr a"
    and "all_rates a = sort_desc rate_ea (get_all_rates results)"
    using get_ranking_Inr[of now results] by blast
  then show ?thesis by simp
qed

text \<open>
  Claim C7, as stated, fails: the merge follows the order in which the results were
  stored. With the scrapers of \<open>SCRAPERS\<close> (fixed record lists, all successful), the
  completion order of the keys as listed and the reverse order give different merged
  lists and different aggregates: records of equal rate keep their merged order through
  the stable sorts of the ranking.
\<close>

theorem completion_order_counterexample:
  "mset (rev bank_codes) = mset bank_codes
   \<and> get_all_rates (scrape_all offline_env [] True bank_codes)
       \<noteq> get_all_rates (scrape_all offline_env [] True (rev bank_codes))
   \<and> get_ranking [] (scrape_all offline_env [] True bank_codes)
       \<noteq> get_ranking [] (scrape_all offline_env [] True (rev bank_codes))"
proof -
  define R1 where "R1 = scrape_all offline_env [] True bank_codes"
  define R2 where "R2 = scrape_all offline_env [] True (rev bank_codes)"
  have h1: "map bank_code (take 1 (get_all_rates R1)) = [''bancolombia'']"
    unfolding R1_def by code_simp
  have h2: "map bank_code (take 1 (get_all_rates R2)) = [''lulobank'']"
    unfolding R2_def by code_simp
  have ne: "get_all_rates R1 \<noteq> get_all_rates R2"
  proof
    assume "get_all_rates R1 = get_all_rates R2"
    with h1 h2 show False by simp
  qed
  have s1: "map bank_code (take 7 (sort_desc rate_ea (get_all_rates R1)))
      = [''atomyrent'', ''atomyrent'', ''atomyrent'', ''ban100'', ''finandina'',
         ''ban100'', ''pibank'']"
    unfolding R1_def by code_simp
  have s2: "map bank_code (take 7 (sort_desc rate_ea (get_all_rates R2)))
      = [''atomyrent'', ''atomyrent'', ''atomyrent'', ''ban100'', ''finandina'',
         ''pibank'', ''pibank'']"
    unfolding R2_def by code_simp
  have "get_ranking [] R1 \<noteq> get_ranking [] R2"
  proof
    assume "get_ranking [] R1 = get_ranking [] R2"
    then have "map_sum id all_rates (get_ranking [] R1) = map_sum id all_rates (get_ranking [] R2)"
      by (rule arg_cong)
    then have "sort_desc rate_ea (get_all_rates R1) = sort_desc rate_ea (get_all_rates R2)"
      unfolding all_rates_ranking by simp
    with s1 s2 show False by simp
  qed
  moreover have "mset (rev bank_codes) = mset bank_codes" by simp
  ultimately show ?thesis using ne unfolding R1_def R2_def by simp
qed

text \<open>
  Claim C7, amended. For fixed sources with fixed record lists, two parallel cycles of a
  fresh orchestrator whose completion orders are orderings of the same keys give the
  same merged records as a multiset, and aggregates with the same records as a
  multiset, the same counts and the same statistics (in exact arithmetic); the order of
  the merged list is the completion order. A sequential cycle does not depend on a
  completion order at all.
\<close>

theorem completion_order_multiset:
  assumes "distinct o1" and "mset o1 = mset o2"
  shows "mset (get_all_rates (scrape_all env [] True o1))
           = mset (get_all_rates (scrape_all env [] True o2))
       \<and> (\<exists>a1 a2. get_ranking now (scrape_all env [] True o1) = Inr a1
                \<and> get_ranking now (scrape_all env [] True o2) = Inr a2
                \<and> mset (all_rates a1) = mset (all_rates a2)
                \<and> total_banks a1 = total_banks a2
                \<and> total_rates a1 = total_rates a2
                \<and> stats a1 = stats a2)
       \<and> scrape_all env [] False o1 = scrape_all env [] False o2"
proof -
  define R1 where "R1 = scrape_all env [] True o1"
  define R2 where "R2 = scrape_all env [] True o2"
  have m: "mset (get_all_rates R1) = mset (get_all_rates R2)"
    unfolding R1_def R2_def using assms by (rule merged_mset)
  have rm: "mset R1 = mset R2"
    unfolding R1_def R2_def using assms by (rule results_mset)
  obtain a1 where a1: "get_ranking now R1 = Inr a1"
      and r1: "all_rates a1 = sort_desc rate_ea (get_all_rates R1)"
      and s1: "get_statistics (all_rates a1) = Inr (stats a1)"
      and t1: "total_rates a1 = length (get_all_rates R1)"
      and b1: "total_banks a1 = length (filter (\<lambda>(k, r). success r) R1)"
    using get_ranking_Inr[of now R1] by blast
  obtain a2 where a2: "get_ranking now R2 = Inr a2"
      and r2: "all_rates a2 = sort_desc rate_ea (get_all_rates R2)"
      and s2: "get_statistics (all_rates a2) = Inr (stats a2)"
      and t2: "total_rates a2 = length (get_all_rates R2)"
      and b2: "total_banks a2 = length (filter (\<lambda>(k, r). success r) R2)"
    using get_ranking_Inr[of now R2] by blast
  have am: "mset (all_rates a1) = mset (all_rates a2)"
    unfolding r1 r2 sort_desc_def using m by simp
  have tr: "total_rates a1 = total_rates a2"
    unfolding t1 t2 using m by (rule mset_eq_length)
  have "mset (filter (\<lambda>(k, r). success r) R1) = mset (filter (\<lambda>(k, r). success r) R2)"
    unfolding mset_filter rm ..
  then have tb: "total_banks a1 = total_banks a2"
    unfolding b1 b2 by (rule mset_eq_length)
  have "get_statistics (all_rates a1) = get_statistics (all_rates a2)"
    using am by (rule get_statistics_mset)
  then have st: "stats a1 = stats a2"
    unfolding s1 s2 by simp
  have sq: "scrape_all env [] False o1 = scrape_all env [] False o2"
    by (simp add: scrape_all_def)
  have "\<exists>a1 a2. get_ranking now R1 = Inr a1 \<and> get_ranking now R2 = Inr a2
          \<and> mset (all_rates a1) = mset (all_rates a2)
          \<and> total_banks a1 = total_banks a2
          \<and> total_rates a1 = total_rates a2
          \<and> stats a1 = stats a2"
    using a1 a2 am tb tr st by (intro exI[of _ a1] exI[of _ a2]) simp
  with m sq show ?thesis unfolding R1_def R2_def by simp
qed

theorem completion_order_multiset_witness:
  "distinct bank_codes \<and> mset bank_codes = mset (rev bank_codes)
   \<and> mset (get_all_rates (scrape_all offline_env [] True bank_codes))
       = mset (get_all_rates (scrape_all offline_env [] True (rev bank_codes)))
   \<and> (\<exists>a1 a2. get_ranking [] (scrape_all offline_env [] True bank_codes) = Inr a1
            \<and> get_ranking [] (scrape_all offline_env [] True (rev bank_codes)) = Inr a2
            \<and> mset (all_rates a1) = mset (all_rates a2)
            \<and> total_banks a1 = total_banks a2
            \<and> total_rates a1 = total_rates a2
            \<and> stats a1 = stats a2)"
proof -
  have p: "mset bank_codes = mset (rev bank_codes)" by simp
  from completion_order_multiset[OF bank_codes_distinct p, of offline_env "[]"]
    bank_codes_distinct p
  show ?thesis by blast
qed

subsection \<open>The card strategy of the consolidator scraper\<close>

lemma example_card_rates:
  "extract_rates_from_card example_card [] [] [] =
     [\<lparr>m_bank_name = ''Banco X'', m_bank_code = ''banco_x'', m_rate_ea = 12.5,
       m_term_days = 360, m_min_amount = None, m_max_amount = None,
       m_rate_type = ''fijo'', m_source_url = [], m_source_month = [],
       m_scraped_at = []\<rparr>]"
  by code_simp

text \<open>
  Claim C2, as stated, fails: the record that the card strategy emits for the example
  card has the term 360, while the longest standard term is 720.
\<close>

theorem card_term_counterexample:
  "map m_term_days (extract_rates_from_card example_card [] [] []) = [360]
   \<and> Max (set STANDARD_TERMS) = 720
   \<and> map m_term_days (extract_rates_from_card example_card [] [] []) \<noteq> [Max (set STANDARD_TERMS)]"
proof -
  have "Max (set STANDARD_TERMS) = 720" by (simp add: STANDARD_TERMS_def)
  then show ?thesis by (simp add: example_card_rates)
qed

text \<open>
  Claim C2, amended. Every record emitted by the card strategy has \<open>term_days = 360\<close>,
  the fixed default of the consolidator scraper (a standard term, not the longest), and
  carries no amount bound (neither a minimum nor a maximum).
\<close>

theorem card_default_term:
  assumes "r \<in> set (extract_rates_from_card card_elem src_url src_month stamp)"
  shows "m_term_days r = 360 \<and> m_min_amount r = None \<and> m_max_amount r = None"
  using assms
  by (auto simp: extract_rates_from_card_def Let_def split: option.splits if_splits)

theorem card_default_term_witness:
  "m_term_days \<lparr>m_bank_name = ''Banco X'', m_bank_code = ''banco_x'', m_rate_ea = 12.5,
       m_term_days = 360, m_min_amount = None, m_max_amount = None,
       m_rate_type = ''fijo'', m_source_url = [], m_source_month = [],
       m_scraped_at = []\<rparr> = 360
   \<and> \<lparr>m_bank_name = ''Banco X'', m_bank_code = ''banco_x'', m_rate_ea = 12.5,
       m_term_days = 360, m_min_amount = None, m_max_amount = None,
       m_rate_type = ''fijo'', m_source_url = [], m_source_month = [],
       m_scraped_at = []\<rparr> \<in> set (extract_rates_from_card example_card [] [] [])"
  using card_default_term[of _ example_card "[]" "[]" "[]"] example_card_rates
  by simp

text \<open>The card strategy keeps a rate only when it lies strictly between 1 and 25.\<close>

lemma card_rate_range:
  assumes "r \<in> set (extract_rates_from_card card_elem src_url src_month stamp)"
  shows "1 < m_rate_ea r \<and> m_rate_ea r < 25"
  using assms
  by (auto simp: extract_rates_from_card_def Let_def split: option.splits if_splits)

subsection \<open>The rates that reach the merge\<close>

text \<open>The table strategy of the generic scraper keeps a row when its term and its rate
  are both present and non-zero; the term is then positive.\<close>

lemma parse_term_nonneg: "parse_term_with b text = Some t \<Longrightarrow> 0 \<le> t"
  by (auto simp: parse_term_with_def Let_def py_int_def split: if_splits option.splits)

lemma parse_row_term_positive:
  assumes "r \<in> set (parse_row config tc rc ac row)"
  shows "0 < term_days r \<and> rate_ea r \<noteq> 0"
proof -
  from assms obtain t ra am where t: "Some t = parse_term_with 36 (cell_text tc (find_all [''td'', ''th''] row))"
    and nz: "t \<noteq> 0" "ra \<noteq> 0"
    and r: "r = new_CDTRate (code config) (name config) t ra am (url config)"
    by (auto simp: parse_row_def Let_def parse_term_def split: if_splits option.splits)
  from parse_term_nonneg[OF t[symmetric]] nz have "0 < t" by simp
  with nz show ?thesis by (simp add: r new_CDTRate_def)
qed

lemma generic_scrape_positive:
  assumes "r \<in> set (rates (generic_scrape config page))"
  shows "0 < term_days r \<and> rate_ea r \<noteq> 0"
proof (cases page)
  case None
  with assms show ?thesis by (simp add: generic_scrape_def new_ScrapingResult_def)
next
  case (Some soup)
  with assms have "r \<in> set (unique_by rate_key {} (concat (map (parse_table config) (extract_tables soup))))"
    by (simp add: generic_scrape_def new_ScrapingResult_def Let_def)
  with unique_by_subset[of rate_key "{}"] obtain t where "r \<in> set (parse_table config t)"
    by fastforce
  moreover obtain tc rc ac data_rows
    where "parse_table config t = concat (map (parse_row config tc rc ac) data_rows)"
    using parse_table_rows by blast
  ultimately obtain row where "r \<in> set (parse_row config tc rc ac row)" by auto
  then show ?thesis by (rule parse_row_term_positive)
qed

text \<open>
  Claim C4. The claim asks that a record whose rate lies outside the plausible range be
  discarded before the merge by every extraction path. The generic table path does not
  do so: for a source handled by \<open>GenericTableScraper\<close> whose page shows a table with
  the rate 99 percent, the record with \<open>rate_ea = 99\<close> is in the merged list.
\<close>

theorem generic_rate_out_of_range:
  "map (\<lambda>r. (bank_code r, term_days r, rate_ea r))
       (get_all_rates (fst (scrape_bank high_rate_env [] ''itau''))) = [(''itau'', 90, 99)]
   \<and> (25::real) < 99"
  by code_simp

subsection \<open>Parsing the canonical string of a rate again\<close>

lemma digit_char_props:
  assumes "d < 10"
  shows "is_digit (digit_char d)" and "digit_val (digit_char d) = d"
    and "\<not> is_space (digit_char d)"
    and "digit_char d \<notin> set ''%, Ee-+.''"
proof -
  from assms have "d \<in> {0, 1, 2, 3, 4, 5, 6, 7, 8, 9}" by auto
  then show "is_digit (digit_char d)" and "digit_val (digit_char d) = d"
    and "\<not> is_space (digit_char d)" and "digit_char d \<notin> set ''%, Ee-+.''"
    by (auto simp: digit_char_def is_digit_def digit_val_def is_space_def)
qed

lemma digits_to_nat_snoc: "digits_to_nat (ds @ [c]) = 10 * digits_to_nat ds + digit_val c"
  by (simp add: digits_to_nat_def)

lemma digits_of_props:
  "digits_of n \<noteq> [] \<and> list_all is_digit (digits_of n) \<and> digits_to_nat (digits_of n) = n"
proof (induction n rule: digits_of.induct)
  case (1 n)
  show ?case
  proof (cases "n < 10")
    case True
    then show ?thesis
      by (simp add: digits_of.simps[of n] digit_char_props digits_to_nat_def)
  next
    case False
    with 1 have IH: "digits_of (n div 10) \<noteq> []" "list_all is_digit (digits_of (n div 10))"
      "digits_to_nat (digits_of (n div 10)) = n div 10" by simp_all
    have m: "n mod 10 < 10" by simp
    from False IH show ?thesis
      by (simp add: digits_of.simps[of n] digit_char_props[OF m] digits_to_nat_snoc)
  qed
qed

lemma decimals_of_props:
  assumes "f < 100"
  shows "list_all is_digit (decimals_of f)"
    and "real (digits_to_nat (decimals_of f)) / 10 ^ length (decimals_of f) = real f / 100"
proof -
  have d: "f div 10 < 10" "f mod 10 < 10" using assms by auto
  show "list_all is_digit (decimals_of f)"
    by (simp add: decimals_of_def digit_char_props[OF d(1)] digit_char_props[OF d(2)])
  show "real (digits_to_nat (decimals_of f)) / 10 ^ length (decimals_of f) = real f / 100"
  proof (cases "f mod 10 = 0")
    case True
    then have "f = 10 * (f div 10)" by auto
    then have "real f = 10 * real (f div 10)" by (metis of_nat_mult of_nat_numeral)
    with True show ?thesis
      by (simp add: decimals_of_def digits_to_nat_def digit_char_props[OF d(1)])
  next
    case False
    have "f = 10 * (f div 10) + f mod 10" by simp
    then have "real f = 10 * real (f div 10) + real (f mod 10)"
      by (metis of_nat_add of_nat_mult of_nat_numeral)
    with False show ?thesis
      by (simp add: decimals_of_def digits_to_nat_def digit_char_props[OF d(1)]
            digit_char_props[OF d(2)])
  qed
qed

lemma is_digit_not: "is_digit c \<Longrightarrow> \<not> is_space c \<and> c \<notin> set ''%, Ee-+.''"
  by (auto simp: is_digit_def is_space_def)

lemma dropWhile_none: "list_all (\<lambda>c. \<not> P c) s \<Longrightarrow> dropWhile P s = s"
  by (cases s) auto

lemma strip_id: "list_all (\<lambda>c. \<not> is_space c) s \<Longrightarrow> strip s = s"
  by (simp add: strip_def dropWhile_none list_all_iff)

lemma replace_absent: "old \<noteq> [] \<Longrightarrow> hd old \<notin> set t \<Longrightarrow> replace old new t = t"
proof -
  have "old \<noteq> [] \<Longrightarrow> hd old \<notin> set t \<Longrightarrow> replace_aux old new 0 t = t"
  proof (induction t)
    case Nil show ?case by simp
  next
    case (Cons c cs)
    from Cons.prems have "\<not> prefix old (c # cs)"
      by (cases old) auto
    with Cons show ?case by simp
  qed
  then show "old \<noteq> [] \<Longrightarrow> hd old \<notin> set t \<Longrightarrow> ?thesis" by (simp add: replace_def)
qed

lemma replace_last_char: "c \<notin> set t \<Longrightarrow> replace [c] [] (t @ [c]) = t"
proof -
  have "c \<notin> set t \<Longrightarrow> replace_aux [c] [] 0 (t @ [c]) = t"
    by (induction t) auto
  then show "c \<notin> set t \<Longrightarrow> ?thesis" by (simp add: replace_def)
qed


lemma dot_not: "\<not> is_space CHR ''.'' \<and> CHR ''.'' \<notin> set ''%, Ee''"
  by (simp add: is_space_def)

lemma minus_not: "\<not> is_space CHR ''-'' \<and> CHR ''-'' \<notin> set ''%, Ee''"
  by (simp add: is_space_def)

lemma plain_chars:
  assumes "plain s" and "c \<in> set s" shows "\<not> is_space c \<and> c \<notin> set ''%, Ee''"
proof -
  from assms consider "is_digit c" | "c = CHR ''.''" | "c = CHR ''-''"
    by (auto simp: plain_def list_all_iff)
  then show ?thesis
  proof cases
    case 1 then show ?thesis using is_digit_not[of c] by simp
  next
    case 2 then show ?thesis using dot_not by simp
  next
    case 3 then show ?thesis using minus_not by simp
  qed
qed

lemma clean_plain:
  assumes "plain s" shows "clean_rate_text (s @ ''%'') = s"
proof -
  have pct: "\<not> is_space CHR ''%''" by (simp add: is_space_def)
  have ns: "list_all (\<lambda>c. \<not> is_space c) (s @ ''%'')"
    using plain_chars[OF assms] pct by (simp add: list_all_iff)
  have a: "CHR ''%'' \<notin> set s" "CHR '','' \<notin> set s" "CHR '' '' \<notin> set s"
    "CHR ''E'' \<notin> set s" "CHR ''e'' \<notin> set s"
    using plain_chars[OF assms] by auto
  have 1: "replace ''%'' [] (s @ ''%'') = s" using a(1) by (rule replace_last_char)
  have 2: "replace '','' ''.'' s = s" using a(2) by (simp add: replace_absent)
  have 3: "replace '' '' [] s = s" using a(3) by (simp add: replace_absent)
  have 4: "replace ''E.A.'' [] s = s" using a(4) by (simp add: replace_absent)
  have 5: "replace ''EA'' [] s = s" using a(4) by (simp add: replace_absent)
  have 6: "replace ''e.a.'' [] s = s" using a(5) by (simp add: replace_absent)
  show ?thesis
    unfolding clean_rate_text_def strip_id[OF ns] 1 2 3 4 5 6 ..
qed

lemma py_float_plain:
  assumes "ds \<noteq> []" and "list_all is_digit ds" and "list_all is_digit fs"
  shows "py_float (ds @ ''.'' @ fs)
           = Some (real (digits_to_nat ds) + real (digits_to_nat fs) / 10 ^ length fs)"
proof -
  define s where "s = ds @ ''.'' @ fs"
  have dot: "\<not> is_space CHR ''.''" by (simp add: is_space_def)
  have "\<not> is_space c" if "c \<in> set ds \<or> c \<in> set fs" for c
    using that assms(2,3) is_digit_not[of c] by (auto simp: list_all_iff)
  with dot have ns: "list_all (\<lambda>c. \<not> is_space c) s"
    by (auto simp: list_all_iff s_def)
  obtain d ds' where ds: "ds = d # ds'" using assms(1) by (cases ds) auto
  with assms(2) have "is_digit d" by simp
  then have "d \<noteq> CHR ''-''" "d \<noteq> CHR ''+''" using is_digit_not[of d] by auto
  then have sg: "split_sign s = (False, s)" by (simp add: split_sign_def ds s_def)
  have nd: "\<not> is_digit CHR ''.''" by (simp add: is_digit_def)
  have tw: "takeWhile is_digit s = ds"
    using assms(2) nd by (simp add: takeWhile_append2 list_all_iff s_def)
  have dw: "dropWhile is_digit s = CHR ''.'' # fs"
    using assms(2) nd by (simp add: dropWhile_append2 list_all_iff s_def)
  have tf: "takeWhile is_digit fs = fs" "dropWhile is_digit fs = []"
    using assms(3) by (simp_all add: list_all_iff)
  have "py_float s = Some (real (digits_to_nat ds) + real (digits_to_nat fs) / 10 ^ length fs)"
    using assms(1)
    by (simp add: py_float_def strip_id[OF ns] sg tw dw tf Let_def parse_exponent_def scale10_def)
  then show ?thesis by (simp add: s_def)
qed


lemma round_half_even_int: "round_half_even (of_int m) = m"
  by (simp add: round_half_even_def)


lemma parse_rate_hundredth:
  assumes "parse_rate x = Some v" shows "\<exists>m. v = of_int m / 100"
proof -
  from assms obtain y where "v = py_round y 2"
    by (auto simp: parse_rate_def rate_of_float_def split: if_splits option.splits)
  then have "v = of_int (round_half_even (y * 10 ^ 2)) / 100" by (simp add: py_round_def)
  then show ?thesis by blast
qed

lemma py_str_nonneg:
  assumes "0 \<le> m" and "m < 10 ^ 18"
  shows "py_str (of_int m / 100)
           = Some (digits_of (nat m div 100) @ ''.'' @ decimals_of (nat m mod 100))"
proof -
  have "\<lfloor>(of_int m / 100 :: real) * 100\<rfloor> = m" by simp
  with assms show ?thesis by (simp add: py_str_def Let_def)
qed

lemma hundredth_split:
  assumes "0 \<le> m"
  shows "real (nat m div 100) + real (nat m mod 100) / 100 = of_int m / 100"
proof -
  have "nat m = 100 * (nat m div 100) + nat m mod 100" by simp
  then have "real (nat m) = 100 * real (nat m div 100) + real (nat m mod 100)"
    by (metis of_nat_add of_nat_mult of_nat_numeral)
  moreover from assms have "real (nat m) = of_int m" by simp
  ultimately show ?thesis by (simp add: field_simps)
qed



lemma py_float_minus:
  assumes "ds \<noteq> []" and "list_all is_digit ds" and "list_all is_digit fs"
  shows "py_float (''-'' @ ds @ ''.'' @ fs)
           = Some (- (real (digits_to_nat ds) + real (digits_to_nat fs) / 10 ^ length fs))"
proof -
  define s where "s = ds @ ''.'' @ fs"
  have dot: "\<not> is_space CHR ''.''" and minus: "\<not> is_space CHR ''-''"
    by (simp_all add: is_space_def)
  have "\<not> is_space c" if "c \<in> set ds \<or> c \<in> set fs" for c
    using that assms(2,3) is_digit_not[of c] by (auto simp: list_all_iff)
  with dot minus have ns: "list_all (\<lambda>c. \<not> is_space c) (CHR ''-'' # s)"
    by (auto simp: list_all_iff s_def)
  have sg: "split_sign (CHR ''-'' # s) = (True, s)" by (simp add: split_sign_def)
  have nd: "\<not> is_digit CHR ''.''" by (simp add: is_digit_def)
  have tw: "takeWhile is_digit s = ds"
    using assms(2) nd by (simp add: takeWhile_append2 list_all_iff s_def)
  have dw: "dropWhile is_digit s = CHR ''.'' # fs"
    using assms(2) nd by (simp add: dropWhile_append2 list_all_iff s_def)
  have tf: "takeWhile is_digit fs = fs" "dropWhile is_digit fs = []"
    using assms(3) by (simp_all add: list_all_iff)
  have "py_float (CHR ''-'' # s)
      = Some (- (real (digits_to_nat ds) + real (digits_to_nat fs) / 10 ^ length fs))"
    using assms(1)
    unfolding py_float_def strip_id[OF ns] sg
    by (simp add: tw dw tf Let_def parse_exponent_def scale10_def)
  then show ?thesis by (simp add: s_def)
qed

lemma py_str_negative:
  assumes "m < 0" and "- (10 ^ 18) < m"
  shows "py_str (of_int m / 100)
           = Some (''-'' @ digits_of (nat (- m) div 100) @ ''.'' @ decimals_of (nat (- m) mod 100))"
proof -
  have "\<lfloor>(of_int m / 100 :: real) * 100\<rfloor> = m" by simp
  moreover from assms have "\<bar>m\<bar> = - m" "\<not> 10 ^ 18 \<le> \<bar>m\<bar>" by simp_all
  ultimately show ?thesis using assms(1) by (simp add: py_str_def Let_def)
qed

lemma py_round_int: "py_round (of_int m) 2 = of_int m"
proof -
  have "round_half_even (of_int m * 10 ^ 2) = m * 100"
    using round_half_even_int[of "m * 100"] by simp
  then show ?thesis by (simp add: py_round_def)
qed

lemma rate_of_fraction:
  assumes "m \<le> 100" shows "rate_of_float (of_int m / 100) = of_int m"
proof -
  from assms have "\<not> 1 < (of_int m / 100 :: real)" by simp
  then show ?thesis using py_round_int[of m] by (simp add: rate_of_float_def)
qed

lemma reparse_fraction_pos:
  assumes "0 < m" and "m \<le> 100"
  shows "parse_rate (digits_of (nat m div 100) @ ''.'' @ decimals_of (nat m mod 100) @ ''%'')
           = Some (of_int m)"
proof -
  define ds where "ds = digits_of (nat m div 100)"
  define fs where "fs = decimals_of (nat m mod 100)"
  define s where "s = ds @ ''.'' @ fs"
  have ds: "ds \<noteq> []" "list_all is_digit ds" "digits_to_nat ds = nat m div 100"
    using digits_of_props[of "nat m div 100"] by (simp_all add: ds_def)
  have b: "nat m mod 100 < 100" by simp
  have fs: "list_all is_digit fs"
    "real (digits_to_nat fs) / 10 ^ length fs = real (nat m mod 100) / 100"
    using decimals_of_props[OF b] by (simp_all add: fs_def)
  have pl: "plain s" using ds(2) fs(1) by (auto simp: plain_def s_def list_all_iff)
  have "py_float s = Some (real (nat m div 100) + real (nat m mod 100) / 100)"
    unfolding s_def py_float_plain[OF ds(1,2) fs(1)] ds(3) fs(2) ..
  also have "\<dots> = Some (of_int m / 100)"
    using assms by (simp add: hundredth_split)
  finally have fl: "py_float s = Some (of_int m / 100)" .
  have "parse_rate (s @ ''%'') = Some (of_int m)"
    unfolding parse_rate_def clean_plain[OF pl] fl by (simp add: rate_of_fraction[OF assms(2)])
  then show ?thesis by (simp add: s_def ds_def fs_def)
qed

lemma reparse_fraction_neg:
  assumes "m < 0"
  shows "parse_rate (''-'' @ digits_of (nat (- m) div 100) @ ''.'' @ decimals_of (nat (- m) mod 100) @ ''%'')
           = Some (of_int m)"
proof -
  define ds where "ds = digits_of (nat (- m) div 100)"
  define fs where "fs = decimals_of (nat (- m) mod 100)"
  define s where "s = ''-'' @ ds @ ''.'' @ fs"
  have ds: "ds \<noteq> []" "list_all is_digit ds" "digits_to_nat ds = nat (- m) div 100"
    using digits_of_props[of "nat (- m) div 100"] by (simp_all add: ds_def)
  have b: "nat (- m) mod 100 < 100" by simp
  have fs: "list_all is_digit fs"
    "real (digits_to_nat fs) / 10 ^ length fs = real (nat (- m) mod 100) / 100"
    using decimals_of_props[OF b] by (simp_all add: fs_def)
  have pl: "plain s" using ds(2) fs(1) by (auto simp: plain_def s_def list_all_iff)
  have "py_float s = Some (- (real (nat (- m) div 100) + real (nat (- m) mod 100) / 100))"
    unfolding s_def py_float_minus[OF ds(1,2) fs(1)] ds(3) fs(2) ..
  also have "\<dots> = Some (of_int m / 100)"
    using assms hundredth_split[of "- m"] by simp
  finally have fl: "py_float s = Some (of_int m / 100)" .
  have le: "m \<le> 100" using assms by simp
  have "parse_rate (s @ ''%'') = Some (of_int m)"
    unfolding parse_rate_def clean_plain[OF pl] fl by (simp add: rate_of_fraction[OF le] s_def)
  then show ?thesis by (simp add: s_def ds_def fs_def)
qed

text \<open>A result of \<open>parse_rate\<close> that is not above 1 and not 0 comes back multiplied
  by 100 when its canonical string is parsed again.\<close>

lemma parse_rate_reparse_fraction:
  assumes "parse_rate x = Some v" and "v \<le> 1" and "v \<noteq> 0" and "- (10 ^ 16) < v"
  shows "\<exists>s. py_str v = Some s \<and> parse_rate (s @ ''%'') = Some (100 * v)
             \<and> parse_rate (s @ ''%'') \<noteq> parse_rate x"
proof -
  from assms(1) obtain m where v: "v = of_int m / 100"
    using parse_rate_hundredth by blast
  from assms(2,3) v have m: "m \<le> 100" "m \<noteq> 0" by simp_all
  have hv: "(100 * v) = of_int m" by (simp add: v)
  have ne: "Some (100 * v) \<noteq> parse_rate x" using assms(1,3) by simp
  show ?thesis
  proof (cases "0 < m")
    case True
    with m have "py_str v
        = Some (digits_of (nat m div 100) @ ''.'' @ decimals_of (nat m mod 100))"
      unfolding v by (intro py_str_nonneg) simp_all
    moreover have "parse_rate ((digits_of (nat m div 100) @ ''.'' @ decimals_of (nat m mod 100)) @ ''%'')
        = Some (100 * v)"
      using reparse_fraction_pos[OF True m(1)] by (simp add: hv)
    ultimately show ?thesis using ne by auto
  next
    case False
    with m have neg: "m < 0" by simp
    from assms(4) v have "- (10 ^ 18) < (of_int m :: real)" by simp
    then have "- (10 ^ 18) < m"
      by (metis of_int_less_iff of_int_minus of_int_numeral of_int_power)
    with neg have "py_str v
        = Some (''-'' @ digits_of (nat (- m) div 100) @ ''.'' @ decimals_of (nat (- m) mod 100))"
      unfolding v by (intro py_str_negative)
    moreover have "parse_rate ((''-'' @ digits_of (nat (- m) div 100) @ ''.'' @ decimals_of (nat (- m) mod 100)) @ ''%'')
        = Some (100 * v)"
      using reparse_fraction_neg[OF neg] by (simp add: hv)
    ultimately show ?thesis using ne by auto
  qed
qed




end
